theory Spec2Isabelle
  imports Complex_Main "HOL-Library.Sublist"
begin

section \<open>JavaScript values\<close>

text \<open>
  The page \<^verbatim>\<open>src/pages/index.tsx\<close> keeps its settings and notes in React state and mirrors
  them to \<^verbatim>\<open>localStorage\<close> as JSON. TypeScript's types are erased at run time, and
  \<^verbatim>\<open>loadAppState\<close> stores whatever \<^verbatim>\<open>JSON.parse\<close> returns, so the state holds
  JavaScript values, not typed fields.

  A \<^verbatim>\<open>number\<close> is a finite value, an infinity or NaN. Finite values are rationals here:
  rounding and the sign of zero are outside the model; NaN and the infinities are in
  it, because \<^verbatim>\<open>Math.min\<close>, \<^verbatim>\<open>Math.max\<close> and \<^verbatim>\<open>JSON.stringify\<close> treat them apart.
  A string is a list of characters; an object is the list of its own properties in
  enumeration order.
\<close>

datatype number = Fin rat | PosInf | NegInf | NaN

datatype jsval =
    JUndefined
  | JNull
  | JBool bool
  | JNum number
  | JStr string
  | JArr "jsval list"
  | JObj "(string \<times> jsval) list"

datatype exn = SyntaxError | TypeError | QuotaExceededError

text \<open>
  Reading a property \<^verbatim>\<open>v.k\<close>: a TypeError on \<^verbatim>\<open>undefined\<close> and \<^verbatim>\<open>null\<close>, the own
  property of an object, and \<^verbatim>\<open>undefined\<close> otherwise. The page reads only
  \<^verbatim>\<open>gap\<close>, \<^verbatim>\<open>amplitude\<close>, \<^verbatim>\<open>speed\<close>, \<^verbatim>\<open>dotColor\<close>, \<^verbatim>\<open>notes\<close> and \<^verbatim>\<open>id\<close>, none of which
  a prototype of a JSON value defines.
\<close>

fun get_prop :: "jsval \<Rightarrow> string \<Rightarrow> exn + jsval" where
  "get_prop JUndefined k = Inl TypeError"
| "get_prop JNull k = Inl TypeError"
| "get_prop (JObj ps) k = Inr (case map_of ps k of None \<Rightarrow> JUndefined | Some v \<Rightarrow> v)"
| "get_prop v k = Inr JUndefined"

subsection \<open>Numbers\<close>

text \<open>A real number as a \<^verbatim>\<open>number\<close>: rounding to the nearest binary floating-point value
  is outside the model, but a value whose magnitude reaches \<open>2^1024 - 2^970\<close> rounds to
  an infinity.\<close>

definition number_of :: "rat \<Rightarrow> number" where
  "number_of q =
     (if 2 ^ 1024 - 2 ^ 970 \<le> q then PosInf
      else if q \<le> - (2 ^ 1024 - 2 ^ 970) then NegInf
      else Fin q)"

text \<open>\<^verbatim>\<open>a + b\<close> on numbers; \<^verbatim>\<open>Math.max\<close> and \<^verbatim>\<open>Math.min\<close>, which return NaN as soon
  as an argument is NaN.\<close>

fun js_add :: "number \<Rightarrow> number \<Rightarrow> number" where
  "js_add NaN b = NaN"
| "js_add a NaN = NaN"
| "js_add (Fin x) (Fin y) = number_of (x + y)"
| "js_add PosInf NegInf = NaN"
| "js_add NegInf PosInf = NaN"
| "js_add PosInf b = PosInf"
| "js_add NegInf b = NegInf"
| "js_add a PosInf = PosInf"
| "js_add a NegInf = NegInf"

fun Math_max :: "number \<Rightarrow> number \<Rightarrow> number" where
  "Math_max NaN b = NaN"
| "Math_max a NaN = NaN"
| "Math_max PosInf b = PosInf"
| "Math_max a PosInf = PosInf"
| "Math_max NegInf b = b"
| "Math_max a NegInf = a"
| "Math_max (Fin x) (Fin y) = Fin (max x y)"

fun Math_min :: "number \<Rightarrow> number \<Rightarrow> number" where
  "Math_min NaN b = NaN"
| "Math_min a NaN = NaN"
| "Math_min NegInf b = NegInf"
| "Math_min a NegInf = NegInf"
| "Math_min PosInf b = b"
| "Math_min a PosInf = a"
| "Math_min (Fin x) (Fin y) = Fin (min x y)"

section \<open>JSON and localStorage\<close>

text \<open>
  \<^verbatim>\<open>localStorage\<close> maps keys to strings. The page only ever tests such a string for
  emptiness and hands it to \<^verbatim>\<open>JSON.parse\<close>, so a stored string is represented by what
  these two do with it: the empty string, a string that \<^verbatim>\<open>JSON.parse\<close> rejects, or a
  JSON text, given by the value \<^verbatim>\<open>JSON.parse\<close> returns on it.
\<close>

datatype stored = Empty | Unparsable | Json jsval

fun truthy :: "stored \<Rightarrow> bool" where
  "truthy Empty = False"
| "truthy t = True"

fun JSON_parse :: "stored \<Rightarrow> exn + jsval" where
  "JSON_parse (Json v) = Inr v"
| "JSON_parse t = Inl SyntaxError"

text \<open>
  \<^verbatim>\<open>JSON.stringify\<close> on plain data: \<open>reparse v\<close> is the value that \<^verbatim>\<open>JSON.parse\<close>
  returns on the text \<^verbatim>\<open>JSON.stringify(v)\<close>. NaN and the infinities are written as
  \<^verbatim>\<open>null\<close>, an \<^verbatim>\<open>undefined\<close> array element is written as \<^verbatim>\<open>null\<close>, and a property
  whose value is \<^verbatim>\<open>undefined\<close> is left out. For \<^verbatim>\<open>undefined\<close> itself
  \<^verbatim>\<open>JSON.stringify\<close> returns \<^verbatim>\<open>undefined\<close>, which \<^verbatim>\<open>setItem\<close> stores as the string
  \<^verbatim>\<open>"undefined"\<close>: not a JSON text.
\<close>

fun reparse :: "jsval \<Rightarrow> jsval"
  and reparse_elems :: "jsval list \<Rightarrow> jsval list"
  and reparse_props :: "(string \<times> jsval) list \<Rightarrow> (string \<times> jsval) list" where
  "reparse JUndefined = JUndefined"
| "reparse JNull = JNull"
| "reparse (JBool b) = JBool b"
| "reparse (JNum n) = (case n of Fin q \<Rightarrow> JNum (Fin q) | _ \<Rightarrow> JNull)"
| "reparse (JStr s) = JStr s"
| "reparse (JArr xs) = JArr (reparse_elems xs)"
| "reparse (JObj ps) = JObj (reparse_props ps)"
| "reparse_elems [] = []"
| "reparse_elems (x # xs) =
     (if x = JUndefined then JNull else reparse x) # reparse_elems xs"
| "reparse_props [] = []"
| "reparse_props ((k, v) # ps) =
     (if v = JUndefined then reparse_props ps else (k, reparse v) # reparse_props ps)"

fun JSON_stringify :: "jsval \<Rightarrow> stored" where
  "JSON_stringify JUndefined = Unparsable"
| "JSON_stringify v = Json (reparse v)"

text \<open>The store: its items, and the writes it refuses (quota exceeded, storage
  disabled); \<^verbatim>\<open>setItem\<close> throws on those.\<close>

record storage =
  items :: "string \<rightharpoonup> stored"
  refuses :: "string \<Rightarrow> stored \<Rightarrow> bool"

definition getItem :: "storage \<Rightarrow> string \<Rightarrow> stored option" where
  "getItem s k = items s k"

definition setItem :: "storage \<Rightarrow> string \<Rightarrow> stored \<Rightarrow> exn + storage" where
  "setItem s k t =
     (if refuses s k t then Inl QuotaExceededError
      else Inr (s\<lparr>items := (items s)(k \<mapsto> t)\<rparr>))"

definition APP_STATE_KEY :: string where
  "APP_STATE_KEY = ''emdr-app-state''"

definition NOTES_KEY :: string where
  "NOTES_KEY = ''emdr-notes''"

section \<open>The page\<close>

text \<open>
  The state of \<^verbatim>\<open>EMDRApp\<close> that the store logic touches: the five \<^verbatim>\<open>useState\<close> cells
  that make up an \<^verbatim>\<open>AppState\<close>, the note form (\<^verbatim>\<open>newNote\<close>, \<^verbatim>\<open>showNoteForm\<close>), the
  title input behind \<^verbatim>\<open>titleInputRef\<close> (\<open>None\<close> when the ref is null, otherwise
  whether it has the focus), \<^verbatim>\<open>localStorage\<close> and what \<^verbatim>\<open>console.error\<close> has printed.
\<close>

record draft =
  title :: string
  content :: string
  date :: string

record page =
  gap :: jsval
  amplitude :: jsval
  speed :: jsval
  dotColor :: jsval
  "notes" :: jsval
  newNote :: draft
  showNoteForm :: bool
  titleInput :: "bool option"
  localStorage :: storage
  console :: "(string \<times> exn) list"

text \<open>A call either returns, or throws; both leave a page behind.\<close>

datatype 'a outcome = Return 'a page | Throw exn page

definition setGap :: "jsval \<Rightarrow> page \<Rightarrow> page" where
  "setGap v p = p\<lparr>gap := v\<rparr>"

definition setAmplitude :: "jsval \<Rightarrow> page \<Rightarrow> page" where
  "setAmplitude v p = p\<lparr>amplitude := v\<rparr>"

definition setSpeed :: "jsval \<Rightarrow> page \<Rightarrow> page" where
  "setSpeed v p = p\<lparr>speed := v\<rparr>"

definition setDotColor :: "jsval \<Rightarrow> page \<Rightarrow> page" where
  "setDotColor v p = p\<lparr>dotColor := v\<rparr>"

definition setNotes :: "jsval \<Rightarrow> page \<Rightarrow> page" where
  "setNotes v p = p\<lparr>notes := v\<rparr>"

definition console_error :: "string \<Rightarrow> exn \<Rightarrow> page \<Rightarrow> page" where
  "console_error msg e p = p\<lparr>console := console p @ [(msg, e)]\<rparr>"

text \<open>The initial render: the arguments of the \<^verbatim>\<open>useState\<close> calls. The date of the
  empty form is today's, and the form is hidden, so its input is not mounted.\<close>

definition initial :: "storage \<Rightarrow> string \<Rightarrow> page" where
  "initial s today =
     \<lparr>gap = JNum (Fin 40), amplitude = JNum (Fin 50), speed = JNum (Fin 1),
      dotColor = JStr ''#00ffaa'', notes = JArr [],
      newNote = \<lparr>title = [], content = [], date = today\<rparr>,
      showNoteForm = False, titleInput = None,
      localStorage = s, console = []\<rparr>"

subsection \<open>saveAppState\<close>

text \<open>The object literal \<^verbatim>\<open>{gap, amplitude, speed, dotColor, notes}\<close>, and the \<^verbatim>\<open>try\<close>
  block around \<^verbatim>\<open>setItem\<close>. The values of the model are finite trees, which
  \<^verbatim>\<open>JSON.stringify\<close> always serialises, so \<^verbatim>\<open>setItem\<close> is the one call that can throw.\<close>

definition appState :: "page \<Rightarrow> jsval" where
  "appState p =
     JObj [(''gap'', gap p), (''amplitude'', amplitude p), (''speed'', speed p),
           (''dotColor'', dotColor p), (''notes'', notes p)]"

definition saveAppState :: "page \<Rightarrow> unit outcome" where
  "saveAppState p =
     (case setItem (localStorage p) APP_STATE_KEY (JSON_stringify (appState p)) of
        Inr s \<Rightarrow> Return () (p\<lparr>localStorage := s\<rparr>)
      | Inl error \<Rightarrow>
          Return () (console_error ''Error saving app state to localStorage:'' error p))"

subsection \<open>loadAppState\<close>

text \<open>The \<^verbatim>\<open>try\<close> block: it returns \<^verbatim>\<open>true\<close> (\<open>Some True\<close>), runs to its end
  (\<open>None\<close>) or throws. A throw carries the page as the setters before it left it.\<close>

definition loadAppState_try :: "page \<Rightarrow> bool option outcome" where
  "loadAppState_try p =
     (case getItem (localStorage p) APP_STATE_KEY of
        None \<Rightarrow> Return None p
      | Some savedState \<Rightarrow>
          if truthy savedState then
            (case JSON_parse savedState of
               Inl e \<Rightarrow> Throw e p
             | Inr parsedState \<Rightarrow>
            (case get_prop parsedState ''gap'' of
               Inl e \<Rightarrow> Throw e p
             | Inr g \<Rightarrow> let p1 = setGap g p in
            (case get_prop parsedState ''amplitude'' of
               Inl e \<Rightarrow> Throw e p1
             | Inr a \<Rightarrow> let p2 = setAmplitude a p1 in
            (case get_prop parsedState ''speed'' of
               Inl e \<Rightarrow> Throw e p2
             | Inr s \<Rightarrow> let p3 = setSpeed s p2 in
            (case get_prop parsedState ''dotColor'' of
               Inl e \<Rightarrow> Throw e p3
             | Inr c \<Rightarrow> let p4 = setDotColor c p3 in
            (case get_prop parsedState ''notes'' of
               Inl e \<Rightarrow> Throw e p4
             | Inr n \<Rightarrow> Return (Some True) (setNotes n p4)))))))
          else Return None p)"

definition loadAppState :: "page \<Rightarrow> bool outcome" where
  "loadAppState p =
     (case loadAppState_try p of
        Return (Some b) p' \<Rightarrow> Return b p'
      | Return None p' \<Rightarrow> Return False p'
      | Throw error p' \<Rightarrow>
          Return False (console_error ''Error loading app state from localStorage:'' error p'))"

subsection \<open>The effect of the first render\<close>

text \<open>\<^verbatim>\<open>JSON.parse(savedNotes)\<close> stands outside any \<^verbatim>\<open>try\<close>: a legacy record that does
  not parse throws out of the effect.\<close>

definition initialLoad :: "page \<Rightarrow> unit outcome" where
  "initialLoad p =
     (case loadAppState p of
        Throw e p' \<Rightarrow> Throw e p'
      | Return stateLoaded p' \<Rightarrow>
          if \<not> stateLoaded then
            (case getItem (localStorage p') NOTES_KEY of
               None \<Rightarrow> Return () p'
             | Some savedNotes \<Rightarrow>
                 if truthy savedNotes then
                   (case JSON_parse savedNotes of
                      Inl e \<Rightarrow> Throw e p'
                    | Inr v \<Rightarrow> Return () (setNotes v p'))
                 else Return () p')
          else Return () p')"

subsection \<open>The shape of an AppState\<close>

text \<open>The types \<^verbatim>\<open>Note\<close> and \<^verbatim>\<open>AppState\<close> of the source, as predicates on values.\<close>

fun is_number :: "jsval \<Rightarrow> bool" where
  "is_number (JNum n) = True"
| "is_number v = False"

fun is_string :: "jsval \<Rightarrow> bool" where
  "is_string (JStr s) = True"
| "is_string v = False"

definition has :: "(jsval \<Rightarrow> bool) \<Rightarrow> jsval \<Rightarrow> string \<Rightarrow> bool" where
  "has ty v k = (case get_prop v k of Inr x \<Rightarrow> ty x | Inl e \<Rightarrow> False)"

definition is_Note :: "jsval \<Rightarrow> bool" where
  "is_Note v \<longleftrightarrow>
     has is_string v ''id'' \<and> has is_string v ''title'' \<and>
     has is_string v ''content'' \<and> has is_string v ''date''"

fun is_Notes :: "jsval \<Rightarrow> bool" where
  "is_Notes (JArr xs) = list_all is_Note xs"
| "is_Notes v = False"

definition is_AppState :: "jsval \<Rightarrow> bool" where
  "is_AppState v \<longleftrightarrow>
     has is_number v ''gap'' \<and> has is_number v ''amplitude'' \<and> has is_number v ''speed'' \<and>
     has is_string v ''dotColor'' \<and> has is_Notes v ''notes''"

text \<open>The documented ranges of the settings.\<close>

fun in_range :: "rat \<Rightarrow> rat \<Rightarrow> jsval \<Rightarrow> bool" where
  "in_range lo hi (JNum (Fin q)) = (lo \<le> q \<and> q \<le> hi)"
| "in_range lo hi v = False"

definition in_bounds :: "page \<Rightarrow> bool" where
  "in_bounds p \<longleftrightarrow>
     in_range 10 200 (gap p) \<and> in_range 10 50 (amplitude p) \<and> in_range (1/2) 10 (speed p)"

text \<open>What \<^verbatim>\<open>loadAppState\<close> hands to the five setters: the properties of the parsed
  value, \<^verbatim>\<open>undefined\<close> for a missing one.\<close>

definition property :: "jsval \<Rightarrow> string \<Rightarrow> jsval" where
  "property v k = (case get_prop v k of Inr x \<Rightarrow> x | Inl e \<Rightarrow> JUndefined)"

definition loaded :: "jsval \<Rightarrow> page \<Rightarrow> page" where
  "loaded v p =
     p\<lparr>gap := property v ''gap'', amplitude := property v ''amplitude'',
       speed := property v ''speed'', dotColor := property v ''dotColor'',
       notes := property v ''notes''\<rparr>"

section \<open>Notes\<close>

text \<open>The type \<^verbatim>\<open>Note\<close> is the form's \<^verbatim>\<open>Omit<Note, "id">\<close> with an id. The object
  \<^verbatim>\<open>{...newNote, id}\<close> lists the form's properties first.\<close>

record Note = draft +
  note_id :: string

definition note_value :: "Note \<Rightarrow> jsval" where
  "note_value n =
     JObj [(''title'', JStr (title n)), (''content'', JStr (content n)),
           (''date'', JStr (date n)), (''id'', JStr (note_id n))]"

text \<open>\<^verbatim>\<open>String.prototype.trim\<close> removes white space and line terminators from both
  ends; among the characters of \<open>string\<close> these are U+0009 to U+000D, the space and
  the no-break space U+00A0.\<close>

definition white_space :: "char \<Rightarrow> bool" where
  "white_space c \<longleftrightarrow>
     c \<in> {CHR 0x09, CHR 0x0A, CHR 0x0B, CHR 0x0C, CHR 0x0D, CHR 0x20, CHR 0xA0}"

definition trim :: "string \<Rightarrow> string" where
  "trim s = rev (dropWhile white_space (rev (dropWhile white_space s)))"

text \<open>\<^verbatim>\<open>Date.now().toString()\<close>: the decimal digits of an integer. \<open>digit\<close> is only
  applied to numbers below 10.\<close>

definition digit :: "nat \<Rightarrow> char" where
  "digit d = ''0123456789'' ! d"

fun digits :: "nat \<Rightarrow> string" where
  "digits n = (if n < 10 then [digit n] else digits (n div 10) @ [digit (n mod 10)])"

declare digits.simps [simp del]

definition toString :: "int \<Rightarrow> string" where
  "toString i = (if i < 0 then CHR ''-'' # digits (nat (- i)) else digits (nat i))"

text \<open>The spread \<^verbatim>\<open>...prev\<close> in an array literal: the elements of an array, the
  characters of a string, a TypeError on anything else.\<close>

fun spread :: "jsval \<Rightarrow> exn + jsval list" where
  "spread (JArr xs) = Inr xs"
| "spread (JStr s) = Inr (map (\<lambda>c. JStr [c]) s)"
| "spread v = Inl TypeError"

text \<open>\<^verbatim>\<open>handleAddNote\<close>, with the clock reading of \<^verbatim>\<open>Date.now()\<close> and today's date for
  the form it resets. The updater of \<^verbatim>\<open>setNotes\<close> throws when \<^verbatim>\<open>prev\<close> is not
  iterable. Hiding the form unmounts its title input.\<close>

definition handleAddNote :: "int \<Rightarrow> string \<Rightarrow> page \<Rightarrow> unit outcome" where
  "handleAddNote now today p =
     (if trim (title (newNote p)) = [] then
        (case titleInput p of
           Some focused \<Rightarrow> Return () (p\<lparr>titleInput := Some True\<rparr>)
         | None \<Rightarrow> Return () p)
      else
        let newNoteWithId =
              \<lparr>title = title (newNote p), content = content (newNote p),
               date = date (newNote p), note_id = toString now\<rparr>
        in (case spread (notes p) of
              Inl e \<Rightarrow> Throw e p
            | Inr prev \<Rightarrow>
                Return ()
                  (p\<lparr>notes := JArr (note_value newNoteWithId # prev),
                     newNote := \<lparr>title = [], content = [], date = today\<rparr>,
                     showNoteForm := False, titleInput := None\<rparr>)))"

text \<open>\<^verbatim>\<open>prev.filter((note) => note.id !== id)\<close>: reading \<^verbatim>\<open>id\<close> throws on a null
  element, and \<^verbatim>\<open>!==\<close> against the string \<^verbatim>\<open>id\<close> holds unless the property is that
  very string. Only an array has a \<^verbatim>\<open>filter\<close> method.\<close>

fun filter_notes :: "string \<Rightarrow> jsval list \<Rightarrow> exn + jsval list" where
  "filter_notes i [] = Inr []"
| "filter_notes i (note # rest) =
     (case get_prop note ''id'' of
        Inl e \<Rightarrow> Inl e
      | Inr v \<Rightarrow>
          (case filter_notes i rest of
             Inl e \<Rightarrow> Inl e
           | Inr kept \<Rightarrow> Inr (if v \<noteq> JStr i then note # kept else kept)))"

definition handleDeleteNote :: "string \<Rightarrow> page \<Rightarrow> unit outcome" where
  "handleDeleteNote i p =
     (case notes p of
        JArr prev \<Rightarrow>
          (case filter_notes i prev of
             Inl e \<Rightarrow> Throw e p
           | Inr kept \<Rightarrow> Return () (p\<lparr>notes := JArr kept\<rparr>))
      | _ \<Rightarrow> Throw TypeError p)"

section \<open>Steppers\<close>

subsection \<open>Conversions\<close>

text \<open>
  A stepper reads the state variable of its setting, which holds whatever
  \<^verbatim>\<open>loadAppState\<close> stored, so \<^verbatim>\<open>value + increment\<close> and \<^verbatim>\<open>Math.max\<close> convert it first.

  The decimal text of a number (\<^verbatim>\<open>Number::toString\<close>) depends on its binary
  floating-point value, which the model does not have: it is a parameter, written
  \<open>Number_toString\<close>, of everything that needs it.

  \<^verbatim>\<open>ToString\<close>, with \<^verbatim>\<open>Array.prototype.join\<close> for an array: \<^verbatim>\<open>undefined\<close> and \<^verbatim>\<open>null\<close>
  elements give the empty string, the others their \<^verbatim>\<open>ToString\<close>, with commas between. A
  parsed object has the methods of \<^verbatim>\<open>Object.prototype\<close>, so it gives
  \<^verbatim>\<open>[object Object]\<close>, unless it has a property \<^verbatim>\<open>toString\<close> of its own: that one is a
  JSON value, not a function, and the conversion throws a TypeError.
\<close>

fun ToString :: "(number \<Rightarrow> string) \<Rightarrow> jsval \<Rightarrow> exn + string"
  and join_elems :: "(number \<Rightarrow> string) \<Rightarrow> jsval list \<Rightarrow> exn + string" where
  "ToString Number_toString JUndefined = Inr ''undefined''"
| "ToString Number_toString JNull = Inr ''null''"
| "ToString Number_toString (JBool b) = Inr (if b then ''true'' else ''false'')"
| "ToString Number_toString (JNum n) = Inr (Number_toString n)"
| "ToString Number_toString (JStr s) = Inr s"
| "ToString Number_toString (JArr xs) = join_elems Number_toString xs"
| "ToString Number_toString (JObj ps) =
     (case map_of ps ''toString'' of
        None \<Rightarrow> Inr ''[object Object]''
      | Some v \<Rightarrow> Inl TypeError)"
| "join_elems Number_toString [] = Inr []"
| "join_elems Number_toString (x # xs) =
     (case (if x = JUndefined \<or> x = JNull then Inr [] else ToString Number_toString x) of
        Inl e \<Rightarrow> Inl e
      | Inr s \<Rightarrow>
          (case join_elems Number_toString xs of
             Inl e \<Rightarrow> Inl e
           | Inr r \<Rightarrow> Inr (if xs = [] then s else s @ '','' @ r)))"

text \<open>\<^verbatim>\<open>ToPrimitive\<close>: an array or object becomes its string (\<^verbatim>\<open>valueOf\<close> returns the
  object itself, so \<^verbatim>\<open>toString\<close> decides); a primitive value stays.\<close>

fun ToPrimitive :: "(number \<Rightarrow> string) \<Rightarrow> jsval \<Rightarrow> exn + jsval" where
  "ToPrimitive Number_toString (JArr xs) =
     (case join_elems Number_toString xs of Inl e \<Rightarrow> Inl e | Inr s \<Rightarrow> Inr (JStr s))"
| "ToPrimitive Number_toString (JObj ps) =
     (case ToString Number_toString (JObj ps) of Inl e \<Rightarrow> Inl e | Inr s \<Rightarrow> Inr (JStr s))"
| "ToPrimitive Number_toString v = Inr v"

text \<open>
  \<^verbatim>\<open>StringToNumber\<close>: white space around the text is dropped; the empty text is 0; a
  text is a number when it is \<^verbatim>\<open>0b\<close>, \<^verbatim>\<open>0o\<close> or \<^verbatim>\<open>0x\<close> (in either case) with digits of
  that base, or has an optional sign before \<^verbatim>\<open>Infinity\<close> or before decimal digits with
  an optional fraction and an optional exponent, at least one digit before or after
  the point; any other text is NaN.
\<close>

definition digit_value :: "char \<Rightarrow> nat option" where
  "digit_value c =
     map_of
       [(CHR ''0'', 0), (CHR ''1'', 1), (CHR ''2'', 2), (CHR ''3'', 3), (CHR ''4'', 4),
        (CHR ''5'', 5), (CHR ''6'', 6), (CHR ''7'', 7), (CHR ''8'', 8), (CHR ''9'', 9),
        (CHR ''a'', 10), (CHR ''b'', 11), (CHR ''c'', 12), (CHR ''d'', 13), (CHR ''e'', 14),
        (CHR ''f'', 15), (CHR ''A'', 10), (CHR ''B'', 11), (CHR ''C'', 12), (CHR ''D'', 13),
        (CHR ''E'', 14), (CHR ''F'', 15)] c"

fun digits_in :: "nat \<Rightarrow> nat \<Rightarrow> string \<Rightarrow> nat option" where
  "digits_in base acc [] = Some acc"
| "digits_in base acc (c # cs) =
     (case digit_value c of
        None \<Rightarrow> None
      | Some d \<Rightarrow> if d < base then digits_in base (acc * base + d) cs else None)"

definition numeral_in :: "nat \<Rightarrow> string \<Rightarrow> nat option" where
  "numeral_in base s = (if s = [] then None else digits_in base 0 s)"

fun non_decimal :: "string \<Rightarrow> nat option" where
  "non_decimal (z # x # ds) =
     (if z \<noteq> CHR ''0'' then None
      else if x = CHR ''b'' \<or> x = CHR ''B'' then numeral_in 2 ds
      else if x = CHR ''o'' \<or> x = CHR ''O'' then numeral_in 8 ds
      else if x = CHR ''x'' \<or> x = CHR ''X'' then numeral_in 16 ds
      else None)"
| "non_decimal s = None"

definition decimal_digit :: "char \<Rightarrow> bool" where
  "decimal_digit c \<longleftrightarrow> c \<in> set ''0123456789''"

text \<open>The exponent part of a decimal text, 0 when there is none, \<open>None\<close> when what
  follows the digits is no exponent part.\<close>

fun exponent :: "string \<Rightarrow> int option" where
  "exponent [] = Some 0"
| "exponent (e # r) =
     (if e \<noteq> CHR ''e'' \<and> e \<noteq> CHR ''E'' then None
      else (case r of
              [] \<Rightarrow> None
            | sg # ds \<Rightarrow>
                if sg = CHR ''+'' then map_option int (numeral_in 10 ds)
                else if sg = CHR ''-'' then map_option (\<lambda>n. - int n) (numeral_in 10 ds)
                else map_option int (numeral_in 10 r)))"

definition digits_value :: "string \<Rightarrow> nat" where
  "digits_value s = (case digits_in 10 0 s of None \<Rightarrow> 0 | Some n \<Rightarrow> n)"

definition power_of_ten :: "int \<Rightarrow> rat" where
  "power_of_ten e = (if 0 \<le> e then 10 ^ nat e else 1 / 10 ^ nat (- e))"

definition unsigned_decimal :: "string \<Rightarrow> number" where
  "unsigned_decimal s =
     (if s = ''Infinity'' then PosInf
      else
        let ip = takeWhile decimal_digit s;
            r = dropWhile decimal_digit s;
            fp = (case r of [] \<Rightarrow> [] | c # r' \<Rightarrow>
                    if c = CHR ''.'' then takeWhile decimal_digit r' else []);
            ex = (case r of [] \<Rightarrow> [] | c # r' \<Rightarrow>
                    if c = CHR ''.'' then dropWhile decimal_digit r' else r)
        in if ip = [] \<and> fp = [] then NaN
           else (case exponent ex of
                   None \<Rightarrow> NaN
                 | Some e \<Rightarrow>
                     number_of
                       ((of_nat (digits_value ip) + of_nat (digits_value fp) / 10 ^ length fp)
                        * power_of_ten e)))"

fun negate :: "number \<Rightarrow> number" where
  "negate (Fin q) = Fin (- q)"
| "negate PosInf = NegInf"
| "negate NegInf = PosInf"
| "negate NaN = NaN"

definition StringToNumber :: "string \<Rightarrow> number" where
  "StringToNumber str =
     (case trim str of
        [] \<Rightarrow> Fin 0
      | c # r \<Rightarrow>
          (case non_decimal (c # r) of
             Some n \<Rightarrow> number_of (of_nat n)
           | None \<Rightarrow>
               if c = CHR ''+'' then unsigned_decimal r
               else if c = CHR ''-'' then negate (unsigned_decimal r)
               else unsigned_decimal (c # r)))"

text \<open>\<^verbatim>\<open>ToNumber\<close>: the value is made primitive first.\<close>

definition ToNumber :: "(number \<Rightarrow> string) \<Rightarrow> jsval \<Rightarrow> exn + number" where
  "ToNumber Number_toString v =
     (case ToPrimitive Number_toString v of
        Inl e \<Rightarrow> Inl e
      | Inr JUndefined \<Rightarrow> Inr NaN
      | Inr JNull \<Rightarrow> Inr (Fin 0)
      | Inr (JBool b) \<Rightarrow> Inr (Fin (if b then 1 else 0))
      | Inr (JNum n) \<Rightarrow> Inr n
      | Inr (JStr s) \<Rightarrow> Inr (StringToNumber s)
      | Inr w \<Rightarrow> Inl TypeError)"

text \<open>\<^verbatim>\<open>value + increment\<close> with a number on the right: the left side is made
  primitive; when it is then a string the result is the concatenation of the two
  texts, otherwise the sum of the two numbers.\<close>

definition js_plus :: "(number \<Rightarrow> string) \<Rightarrow> jsval \<Rightarrow> number \<Rightarrow> exn + jsval" where
  "js_plus Number_toString value increment =
     (case ToPrimitive Number_toString value of
        Inl e \<Rightarrow> Inl e
      | Inr (JStr s) \<Rightarrow> Inr (JStr (s @ Number_toString increment))
      | Inr v \<Rightarrow>
          (case ToNumber Number_toString v of
             Inl e \<Rightarrow> Inl e
           | Inr n \<Rightarrow> Inr (JNum (js_add n increment))))"

subsection \<open>incrementValue\<close>

text \<open>\<^verbatim>\<open>incrementValue(setter, value, increment, min, max)\<close>, its last two parameters
  written \<open>minimum\<close> and \<open>maximum\<close>. Every caller passes number literals for the
  increment and both bounds, so the defaults 1 and 100 are never used; \<^verbatim>\<open>value\<close> is
  the state variable of the setting. \<^verbatim>\<open>Math.max\<close> converts the sum with \<^verbatim>\<open>ToNumber\<close>.\<close>

definition incrementValue ::
  "(number \<Rightarrow> string) \<Rightarrow> (jsval \<Rightarrow> page \<Rightarrow> page) \<Rightarrow> jsval \<Rightarrow> number \<Rightarrow> number \<Rightarrow> number \<Rightarrow>
     page \<Rightarrow> unit outcome" where
  "incrementValue Number_toString setter value increment minimum maximum p =
     (case js_plus Number_toString value increment of
        Inl e \<Rightarrow> Throw e p
      | Inr added \<Rightarrow>
          (case ToNumber Number_toString added of
             Inl e \<Rightarrow> Throw e p
           | Inr n \<Rightarrow> Return () (setter (JNum (Math_min maximum (Math_max minimum n))) p)))"


definition gap_plus :: "(number \<Rightarrow> string) \<Rightarrow> page \<Rightarrow> unit outcome" where
  "gap_plus Number_toString p =
     incrementValue Number_toString setGap (gap p) (Fin 5) (Fin 10) (Fin 200) p"


definition amplitude_plus :: "(number \<Rightarrow> string) \<Rightarrow> page \<Rightarrow> unit outcome" where
  "amplitude_plus Number_toString p =
     incrementValue Number_toString setAmplitude (amplitude p) (Fin 5) (Fin 10) (Fin 50) p"



section \<open>The debounced save\<close>

text \<open>
  The second effect of the page sets a timeout that calls \<^verbatim>\<open>saveAppState\<close> after 500 ms,
  and its cleanup clears that timeout. Its dependencies include \<^verbatim>\<open>saveAppState\<close>, which
  every render creates anew, so React runs the cleanup and the effect after every
  render. Time is a clock in milliseconds. A pending timeout has an id, a deadline and
  the render whose \<^verbatim>\<open>saveAppState\<close> it will call; its callback runs when the clock has
  reached the deadline, unless \<^verbatim>\<open>clearTimeout\<close> removed it before.
\<close>

record timer =
  timer_id :: nat
  deadline :: nat
  closure :: page

record mounted =
  view :: page
  clock :: nat
  timers :: "timer list"
  next_id :: nat
  saveTimeout :: "nat option"
  saves :: nat

definition setTimeout :: "page \<Rightarrow> nat \<Rightarrow> mounted \<Rightarrow> nat \<times> mounted" where
  "setTimeout cl delay m =
     (next_id m,
      m\<lparr>timers := timers m @ [\<lparr>timer_id = next_id m, deadline = clock m + delay, closure = cl\<rparr>],
        next_id := next_id m + 1\<rparr>)"

definition clearTimeout :: "nat \<Rightarrow> mounted \<Rightarrow> mounted" where
  "clearTimeout i m = m\<lparr>timers := filter (\<lambda>x. timer_id x \<noteq> i) (timers m)\<rparr>"

definition cleanup :: "mounted \<Rightarrow> mounted" where
  "cleanup m = (case saveTimeout m of None \<Rightarrow> m | Some i \<Rightarrow> clearTimeout i m)"

definition effect :: "mounted \<Rightarrow> mounted" where
  "effect m = (case setTimeout (view m) 500 m of (i, m') \<Rightarrow> m'\<lparr>saveTimeout := Some i\<rparr>)"

text \<open>
  A call of a state setter. React compares the new value with the current one by
  \<^verbatim>\<open>Object.is\<close> and renders only when they differ. Every array or object that the page
  hands to a setter is newly made (an array literal, the result of \<^verbatim>\<open>filter\<close> or of
  \<^verbatim>\<open>JSON.parse\<close>, an object literal), so it is never the one in the state; primitive
  values are compared by value. \<open>SetOther\<close> is a call that changes a state cell outside
  this model (\<^verbatim>\<open>isRunning\<close>, \<^verbatim>\<open>openSettings\<close>, \<^verbatim>\<open>sidebarOpen\<close>, \<^verbatim>\<open>calendarOpen\<close>).
\<close>

datatype event =
    SetGap jsval
  | SetAmplitude jsval
  | SetSpeed jsval
  | SetDotColor jsval
  | SetNotes jsval
  | SetNewNote draft
  | SetShowNoteForm bool
  | SetOther

fun apply_event :: "event \<Rightarrow> page \<Rightarrow> page" where
  "apply_event (SetGap v) p = setGap v p"
| "apply_event (SetAmplitude v) p = setAmplitude v p"
| "apply_event (SetSpeed v) p = setSpeed v p"
| "apply_event (SetDotColor v) p = setDotColor v p"
| "apply_event (SetNotes v) p = setNotes v p"
| "apply_event (SetNewNote d) p = p\<lparr>newNote := d\<rparr>"
| "apply_event (SetShowNoteForm b) p = p\<lparr>showNoteForm := b\<rparr>"
| "apply_event SetOther p = p"

fun Object_is :: "jsval \<Rightarrow> jsval \<Rightarrow> bool" where
  "Object_is (JArr xs) w = False"
| "Object_is (JObj ps) w = False"
| "Object_is v w = (v = w)"

fun rerenders :: "event \<Rightarrow> page \<Rightarrow> bool" where
  "rerenders (SetGap v) p = (\<not> Object_is v (gap p))"
| "rerenders (SetAmplitude v) p = (\<not> Object_is v (amplitude p))"
| "rerenders (SetSpeed v) p = (\<not> Object_is v (speed p))"
| "rerenders (SetDotColor v) p = (\<not> Object_is v (dotColor p))"
| "rerenders (SetNotes v) p = (\<not> Object_is v (notes p))"
| "rerenders (SetNewNote d) p = True"
| "rerenders (SetShowNoteForm b) p = (b \<noteq> showNoteForm p)"
| "rerenders SetOther p = True"

text \<open>A render with the new state: the cleanup of the effect, then the effect.\<close>

definition render :: "event \<Rightarrow> mounted \<Rightarrow> mounted" where
  "render u m = effect (cleanup (m\<lparr>view := apply_event u (view m)\<rparr>))"

text \<open>A setter call: a render when the value differs, nothing otherwise.\<close>

definition dispatch :: "event \<Rightarrow> mounted \<Rightarrow> mounted" where
  "dispatch u m = (if rerenders u (view m) then render u m else m)"

text \<open>The callback \<^verbatim>\<open>() => saveAppState()\<close> of a render: it reads the five state
  variables of that render, and \<^verbatim>\<open>localStorage\<close> and the console as they are now.\<close>

definition callback :: "page \<Rightarrow> mounted \<Rightarrow> mounted" where
  "callback cl m =
     (case saveAppState (cl\<lparr>localStorage := localStorage (view m), console := console (view m)\<rparr>) of
        Return u p \<Rightarrow>
          m\<lparr>view := (view m)\<lparr>localStorage := localStorage p, console := console p\<rparr>,
            saves := saves m + 1\<rparr>
      | Throw e p \<Rightarrow>
          m\<lparr>view := (view m)\<lparr>localStorage := localStorage p, console := console p\<rparr>,
            saves := saves m + 1\<rparr>)"

text \<open>The clock moves to \<open>t\<close>: the timeouts that are due run, in the order they were
  set.\<close>

definition elapse :: "nat \<Rightarrow> mounted \<Rightarrow> mounted" where
  "elapse t m =
     fold (\<lambda>x. callback (closure x)) (filter (\<lambda>x. deadline x \<le> t) (timers m))
       (m\<lparr>timers := filter (\<lambda>x. \<not> deadline x \<le> t) (timers m), clock := t\<rparr>)"

text \<open>Setter calls at their times, in order.\<close>

fun run :: "(nat \<times> event) list \<Rightarrow> mounted \<Rightarrow> mounted" where
  "run [] m = m"
| "run ((t, u) # es) m = run es (dispatch u (elapse t m))"

text \<open>The first render of a page at time \<open>t\<close>.\<close>

definition mount :: "nat \<Rightarrow> page \<Rightarrow> mounted" where
  "mount t p =
     effect \<lparr>view = p, clock = t, timers = [], next_id = 0, saveTimeout = None, saves = 0\<rparr>"

text \<open>The page goes away: React runs the cleanup of the effect, and no render
  follows.\<close>

definition unmount :: "mounted \<Rightarrow> mounted" where
  "unmount m = cleanup m"

text \<open>Setter calls that follow one at time \<open>t\<close>, each less than 500 ms after the one
  before; and the time of the last of them.\<close>

fun quick :: "nat \<Rightarrow> (nat \<times> event) list \<Rightarrow> bool" where
  "quick t [] = True"
| "quick t ((t', u) # es) = (t \<le> t' \<and> t' < t + 500 \<and> quick t' es)"

fun last_time :: "nat \<Rightarrow> (nat \<times> event) list \<Rightarrow> nat" where
  "last_time t [] = t"
| "last_time t ((t', u) # es) = last_time t' es"

text \<open>Every call of the list is a mutation: it changes the value of its cell, as the
  calls before it left the page. And the page after all of them.\<close>

fun mutations :: "(nat \<times> event) list \<Rightarrow> page \<Rightarrow> bool" where
  "mutations [] p = True"
| "mutations ((t, u) # es) p = (rerenders u p \<and> mutations es (apply_event u p))"

fun apply_events :: "(nat \<times> event) list \<Rightarrow> page \<Rightarrow> page" where
  "apply_events [] p = p"
| "apply_events ((t, u) # es) p = apply_events es (apply_event u p)"

section \<open>Predicates and sample data\<close>

text \<open>Values that \<^verbatim>\<open>JSON.stringify\<close> writes as they are: no \<^verbatim>\<open>undefined\<close>, no NaN and
  no infinity anywhere inside.\<close>

fun plain :: "jsval \<Rightarrow> bool"
  and plain_elems :: "jsval list \<Rightarrow> bool"
  and plain_props :: "(string \<times> jsval) list \<Rightarrow> bool" where
  "plain JUndefined = False"
| "plain JNull = True"
| "plain (JBool b) = True"
| "plain (JNum n) = (case n of Fin q \<Rightarrow> True | _ \<Rightarrow> False)"
| "plain (JStr s) = True"
| "plain (JArr xs) = plain_elems xs"
| "plain (JObj ps) = plain_props ps"
| "plain_elems [] = True"
| "plain_elems (x # xs) = (plain x \<and> plain_elems xs)"
| "plain_props [] = True"
| "plain_props ((k, v) # ps) = (plain v \<and> plain_props ps)"

text \<open>The ids of the notes of a list, as \<^verbatim>\<open>note.id\<close> reads them.\<close>

definition ids :: "jsval list \<Rightarrow> jsval list" where
  "ids xs = map (\<lambda>x. property x ''id'') xs"

text \<open>Every pending timeout is the one whose id the last run of the effect kept for its
  cleanup; and: exactly that timeout is pending, due at \<open>d\<close>, set by the current
  render.\<close>

definition own :: "mounted \<Rightarrow> bool" where
  "own m \<longleftrightarrow> list_all (\<lambda>x. saveTimeout m = Some (timer_id x)) (timers m)"

definition armed :: "nat \<Rightarrow> mounted \<Rightarrow> bool" where
  "armed d m \<longleftrightarrow>
     (case saveTimeout m of
        None \<Rightarrow> False
      | Some i \<Rightarrow> timers m = [\<lparr>timer_id = i, deadline = d, closure = view m\<rparr>])"

text \<open>Stores and notes to run the page on.\<close>

definition empty_store :: storage where
  "empty_store = \<lparr>items = Map.empty, refuses = (\<lambda>k t. False)\<rparr>"

definition full_store :: storage where
  "full_store = \<lparr>items = Map.empty, refuses = (\<lambda>k t. True)\<rparr>"

definition store_with :: "string \<Rightarrow> stored \<Rightarrow> storage" where
  "store_with k t = \<lparr>items = [k \<mapsto> t], refuses = (\<lambda>k t. False)\<rparr>"

definition session1 :: Note where
  "session1 =
     \<lparr>title = ''Session 1'', content = ''calm'', date = ''2024-05-01'',
      note_id = ''1714550000000''\<rparr>"

definition session2 :: Note where
  "session2 =
     \<lparr>title = ''Session 2'', content = ''tired'', date = ''2024-05-02'',
      note_id = ''1714636400000''\<rparr>"

definition fresh :: page where
  "fresh = initial empty_store ''2024-05-03''"

text \<open>A record with a gap beyond its range and an amplitude that is no number.\<close>

definition wild :: jsval where
  "wild =
     JObj [(''gap'', JNum (Fin 1000)), (''amplitude'', JStr ''wide''), (''speed'', JNum (Fin 1)),
           (''dotColor'', JStr ''#ff0000''), (''notes'', JArr [])]"

text \<open>A page whose gap is infinite, as after loading a record with the gap \<^verbatim>\<open>1e999\<close>;
  and a page with two notes.\<close>

definition overflowed :: page where
  "overflowed = fresh\<lparr>gap := JNum PosInf\<rparr>"

definition noted :: page where
  "noted = fresh\<lparr>speed := JNum (Fin (3/2)), notes := JArr (map note_value [session2, session1])\<rparr>"

text \<open>A page with one note and the form filled in; and the same with a title of a
  space, a tab and a no-break space.\<close>

definition filling :: page where
  "filling =
     fresh\<lparr>notes := JArr [note_value session1],
           newNote := \<lparr>title = ''Session 1 again'', content = ''same hour'', date = ''2024-05-01''\<rparr>,
           showNoteForm := True, titleInput := Some False\<rparr>"

definition blank :: page where
  "blank =
     fresh\<lparr>notes := JArr [note_value session1],
           newNote := \<lparr>title = [CHR 0x20, CHR 0x09, CHR 0xA0], content = ''lost'', date = ''2024-05-01''\<rparr>,
           showNoteForm := True, titleInput := Some False\<rparr>"

text \<open>Two mutations, 200 ms and 600 ms after a first one at 100 ms.\<close>

definition burst :: "(nat \<times> event) list" where
  "burst = [(300, SetGap (JNum (Fin 50))), (700, SetSpeed (JNum (Fin 2)))]"

text \<open>A stand-in for \<open>Number_toString\<close> where a statement needs a function: the text of
  NaN, of the infinities and of the whole numbers below \<open>10^21\<close>, which
  \<^verbatim>\<open>Number::toString\<close> yields without rounding. It is empty on every other number, and no
  statement below hands it one.\<close>

definition integer_text :: "number \<Rightarrow> string" where
  "integer_text n =
     (case n of
        NaN \<Rightarrow> ''NaN''
      | PosInf \<Rightarrow> ''Infinity''
      | NegInf \<Rightarrow> ''-Infinity''
      | Fin q \<Rightarrow> if of_int \<lfloor>q\<rfloor> = q \<and> \<bar>q\<bar> < 10 ^ 21 then toString \<lfloor>q\<rfloor> else [])"


definition refused :: page where
  "refused = fresh\<lparr>localStorage := full_store\<rparr>"

section \<open>Properties: loading\<close>

lemma get_prop_defined:
  "v \<noteq> JNull \<Longrightarrow> v \<noteq> JUndefined \<Longrightarrow> get_prop v k = Inr (property v k)"
  by (cases v) (simp_all add: property_def)

lemma loadAppState_try_value:
  assumes "getItem (localStorage p) APP_STATE_KEY = Some (Json v)"
    and "v \<noteq> JNull" and "v \<noteq> JUndefined"
  shows "loadAppState_try p = Return (Some True) (loaded v p)"
  using assms
  by (simp add: loadAppState_try_def get_prop_defined loaded_def setGap_def setAmplitude_def
      setSpeed_def setDotColor_def setNotes_def)

lemma loadAppState_value:
  assumes "getItem (localStorage p) APP_STATE_KEY = Some (Json v)"
    and "v \<noteq> JNull" and "v \<noteq> JUndefined"
  shows "loadAppState p = Return True (loaded v p)"
  by (simp add: loadAppState_def loadAppState_try_value [OF assms])

lemma loadAppState_absent:
  "getItem (localStorage p) APP_STATE_KEY = None \<Longrightarrow> loadAppState p = Return False p"
  by (simp add: loadAppState_def loadAppState_try_def)

lemma loadAppState_empty:
  "getItem (localStorage p) APP_STATE_KEY = Some Empty \<Longrightarrow> loadAppState p = Return False p"
  by (simp add: loadAppState_def loadAppState_try_def)

lemma loadAppState_unparsable:
  "getItem (localStorage p) APP_STATE_KEY = Some Unparsable \<Longrightarrow>
   loadAppState p =
     Return False (console_error ''Error loading app state from localStorage:'' SyntaxError p)"
  by (simp add: loadAppState_def loadAppState_try_def)

lemma loadAppState_nullish:
  "getItem (localStorage p) APP_STATE_KEY = Some (Json v) \<Longrightarrow> v = JNull \<or> v = JUndefined \<Longrightarrow>
   loadAppState p =
     Return False (console_error ''Error loading app state from localStorage:'' TypeError p)"
  by (auto simp: loadAppState_def loadAppState_try_def)

text \<open>
  Claim C2, as amended. \<^verbatim>\<open>loadAppState\<close> reads the record under the primary key. When the
  record is present, not empty, and parses as JSON to anything but \<^verbatim>\<open>null\<close>, it hands the
  value's \<^verbatim>\<open>gap\<close>, \<^verbatim>\<open>amplitude\<close>, \<^verbatim>\<open>speed\<close>, \<^verbatim>\<open>dotColor\<close> and \<^verbatim>\<open>notes\<close> properties to the
  five setters (\<^verbatim>\<open>undefined\<close> for a missing one) and returns \<^verbatim>\<open>true\<close>, whether or not the
  value has the shape of an AppState; a record of that shape so has all five fields
  applied. When the record is absent or empty it returns \<^verbatim>\<open>false\<close> and changes nothing;
  when it is not JSON, or is the JSON \<^verbatim>\<open>null\<close>, it logs the error, returns \<^verbatim>\<open>false\<close> and
  leaves the five fields as they were (the defaults, at startup).
\<close>

theorem loadAppState_outcome:
  "loadAppState p =
     (case getItem (localStorage p) APP_STATE_KEY of
        None \<Rightarrow> Return False p
      | Some Empty \<Rightarrow> Return False p
      | Some Unparsable \<Rightarrow>
          Return False
            (console_error ''Error loading app state from localStorage:'' SyntaxError p)
      | Some (Json v) \<Rightarrow>
          if v = JNull \<or> v = JUndefined
          then Return False
                 (console_error ''Error loading app state from localStorage:'' TypeError p)
          else Return True (loaded v p)) \<and>
   appState (console_error msg e p) = appState p"
proof -
  have "appState (console_error msg e p) = appState p"
    by (simp add: appState_def console_error_def)
  moreover have "loadAppState p =
     (case getItem (localStorage p) APP_STATE_KEY of
        None \<Rightarrow> Return False p
      | Some Empty \<Rightarrow> Return False p
      | Some Unparsable \<Rightarrow>
          Return False
            (console_error ''Error loading app state from localStorage:'' SyntaxError p)
      | Some (Json v) \<Rightarrow>
          if v = JNull \<or> v = JUndefined
          then Return False
                 (console_error ''Error loading app state from localStorage:'' TypeError p)
          else Return True (loaded v p))"
  proof (cases "getItem (localStorage p) APP_STATE_KEY")
    case None
    then show ?thesis by (simp add: loadAppState_absent)
  next
    case (Some t)
    show ?thesis
    proof (cases t)
      case Empty
      with Some show ?thesis by (simp add: loadAppState_empty)
    next
      case Unparsable
      with Some show ?thesis by (simp add: loadAppState_unparsable)
    next
      case (Json v)
      with Some have item: "getItem (localStorage p) APP_STATE_KEY = Some (Json v)" by simp
      show ?thesis
      proof (cases "v = JNull \<or> v = JUndefined")
        case True
        with item show ?thesis by (simp add: loadAppState_nullish)
      next
        case False
        with item show ?thesis by (simp add: loadAppState_value)
      qed
    qed
  qed
  ultimately show ?thesis by simp
qed

text \<open>The theorem at a record of the AppState shape, at a record that is not JSON, and
  at an empty store.\<close>

theorem loadAppState_outcome_witness:
  "loadAppState (initial (store_with APP_STATE_KEY
       (Json (appState (fresh\<lparr>gap := JNum (Fin 60), notes := JArr [note_value session1]\<rparr>))))
       ''2024-05-03'') =
     Return True
       ((initial (store_with APP_STATE_KEY
           (Json (appState (fresh\<lparr>gap := JNum (Fin 60), notes := JArr [note_value session1]\<rparr>))))
           ''2024-05-03'')
        \<lparr>gap := JNum (Fin 60), notes := JArr [note_value session1]\<rparr>) \<and>
   loadAppState (initial (store_with APP_STATE_KEY Unparsable) ''2024-05-03'') =
     Return False
       ((initial (store_with APP_STATE_KEY Unparsable) ''2024-05-03'')
        \<lparr>console := [(''Error loading app state from localStorage:'', SyntaxError)]\<rparr>) \<and>
   loadAppState fresh = Return False fresh"
  using loadAppState_outcome [of "initial (store_with APP_STATE_KEY
       (Json (appState (fresh\<lparr>gap := JNum (Fin 60), notes := JArr [note_value session1]\<rparr>))))
       ''2024-05-03''"]
    loadAppState_outcome [of "initial (store_with APP_STATE_KEY Unparsable) ''2024-05-03''"]
    loadAppState_outcome [of fresh]
  by (simp add: initial_def store_with_def getItem_def fresh_def empty_store_def appState_def
      loaded_def property_def console_error_def APP_STATE_KEY_def)

text \<open>
  Claim C2 as first stated fails: the record \<^verbatim>\<open>{}\<close> does not have the shape of an
  AppState, yet \<^verbatim>\<open>loadAppState\<close> returns \<^verbatim>\<open>true\<close> on it and replaces the five defaults by
  \<^verbatim>\<open>undefined\<close>.
\<close>

theorem load_malformed_counterexample:
  "\<not> is_AppState (JObj []) \<and>
   loadAppState (initial (store_with APP_STATE_KEY (Json (JObj []))) ''2024-05-03'') =
     Return True
       ((initial (store_with APP_STATE_KEY (Json (JObj []))) ''2024-05-03'')
        \<lparr>gap := JUndefined, amplitude := JUndefined, speed := JUndefined,
          dotColor := JUndefined, notes := JUndefined\<rparr>)"
  by (simp add: is_AppState_def has_def loadAppState_def loadAppState_try_def initial_def
      store_with_def getItem_def setGap_def setAmplitude_def setSpeed_def setDotColor_def
      setNotes_def)

text \<open>
  Claim C10. \<^verbatim>\<open>loadAppState\<close> applies the persisted settings as they are, without clamping
  and without a check of their shape: for a record that parses to a value other than
  \<^verbatim>\<open>null\<close> and whose \<^verbatim>\<open>gap\<close>, \<^verbatim>\<open>amplitude\<close> or \<^verbatim>\<open>speed\<close> lies outside its documented range
  or is not a number at all, the load succeeds, the state holds exactly these values,
  and the bounds of the settings do not hold after it.
\<close>

theorem load_adopts_out_of_range:
  assumes "getItem (localStorage p) APP_STATE_KEY = Some (Json v)"
    and "v \<noteq> JNull" and "v \<noteq> JUndefined"
    and "\<not> (in_range 10 200 (property v ''gap'') \<and> in_range 10 50 (property v ''amplitude'') \<and>
            in_range (1/2) 10 (property v ''speed''))"
  shows "\<exists>p'. loadAppState p = Return True p' \<and>
           gap p' = property v ''gap'' \<and> amplitude p' = property v ''amplitude'' \<and>
           speed p' = property v ''speed'' \<and> \<not> in_bounds p'"
proof -
  have "loadAppState p = Return True (loaded v p)"
    using assms(1-3) by (rule loadAppState_value)
  moreover have "\<not> in_bounds (loaded v p)"
    using assms(4) by (simp add: in_bounds_def loaded_def)
  ultimately show ?thesis by (simp add: loaded_def)
qed

text \<open>The theorem at a record whose gap is 1000 and whose amplitude is a string.\<close>

theorem load_adopts_out_of_range_witness:
  "\<exists>p'. loadAppState (initial (store_with APP_STATE_KEY (Json wild)) ''2024-05-03'') =
           Return True p' \<and>
         gap p' = JNum (Fin 1000) \<and> amplitude p' = JStr ''wide'' \<and> speed p' = JNum (Fin 1) \<and>
         \<not> in_bounds p'"
  using load_adopts_out_of_range
    [of "initial (store_with APP_STATE_KEY (Json wild)) ''2024-05-03''" wild]
  by (simp add: initial_def store_with_def getItem_def wild_def property_def)

text \<open>
  Claim C6. When the store has no record under the primary key and a legacy record
  under \<^verbatim>\<open>emdr-notes\<close> that parses as JSON, the effect of the first render leaves the four
  settings at their defaults and adopts the legacy value as the notes.
\<close>

theorem legacy_fallback:
  assumes "getItem s APP_STATE_KEY = None" and "getItem s NOTES_KEY = Some (Json v)"
  shows "initialLoad (initial s today) = Return () ((initial s today)\<lparr>notes := v\<rparr>) \<and>
         gap (initial s today) = JNum (Fin 40) \<and> amplitude (initial s today) = JNum (Fin 50) \<and>
         speed (initial s today) = JNum (Fin 1) \<and> dotColor (initial s today) = JStr ''#00ffaa''"
proof -
  have "loadAppState (initial s today) = Return False (initial s today)"
    using assms(1) by (simp add: loadAppState_absent initial_def)
  then have "initialLoad (initial s today) = Return () ((initial s today)\<lparr>notes := v\<rparr>)"
    using assms(2) by (simp add: initialLoad_def initial_def setNotes_def)
  then show ?thesis by (simp add: initial_def)
qed

text \<open>The theorem at a store that holds only a legacy record of two notes.\<close>

theorem legacy_fallback_witness:
  "getItem (store_with NOTES_KEY (Json (JArr [note_value session2, note_value session1])))
     APP_STATE_KEY = None \<and>
   initialLoad
     (initial (store_with NOTES_KEY (Json (JArr [note_value session2, note_value session1])))
        ''2024-05-03'') =
     Return ()
       ((initial (store_with NOTES_KEY (Json (JArr [note_value session2, note_value session1])))
           ''2024-05-03'')
        \<lparr>notes := JArr [note_value session2, note_value session1]\<rparr>)"
  using legacy_fallback
    [of "store_with NOTES_KEY (Json (JArr [note_value session2, note_value session1]))"
        "JArr [note_value session2, note_value session1]" "''2024-05-03''"]
  by (simp add: store_with_def getItem_def NOTES_KEY_def APP_STATE_KEY_def)


section \<open>Properties: saving\<close>

lemma reparse_plain:
  "plain v \<Longrightarrow> reparse v = v"
  "plain_elems xs \<Longrightarrow> reparse_elems xs = xs"
  "plain_props ps \<Longrightarrow> reparse_props ps = ps"
  by (induction v and xs and ps rule: reparse_reparse_elems_reparse_props.induct)
     (auto split: number.splits)

lemma plain_note_value: "plain (note_value n)"
  by (simp add: note_value_def)

lemma plain_notes: "plain_elems (map note_value ns)"
  by (induction ns) (simp_all add: plain_note_value)

lemma stringify_appState: "JSON_stringify (appState p) = Json (reparse (appState p))"
  by (simp add: appState_def)

lemma saveAppState_cases:
  "saveAppState p =
     Return ()
       (if refuses (localStorage p) APP_STATE_KEY (Json (reparse (appState p)))
        then console_error ''Error saving app state to localStorage:'' QuotaExceededError p
        else p\<lparr>localStorage := (localStorage p)\<lparr>items :=
               (items (localStorage p))(APP_STATE_KEY \<mapsto> Json (reparse (appState p)))\<rparr>\<rparr>)"
  by (simp add: saveAppState_def setItem_def stringify_appState)

text \<open>
  Claim C8. \<^verbatim>\<open>saveAppState\<close> serialises the object of the five state fields, \<^verbatim>\<open>gap\<close>,
  \<^verbatim>\<open>amplitude\<close>, \<^verbatim>\<open>speed\<close>, \<^verbatim>\<open>dotColor\<close> and \<^verbatim>\<open>notes\<close>, and writes that text under the primary
  key, leaving the other items of the store alone; for fields that are JSON data the
  text is that of the five fields as they are. It always returns: when the store
  refuses the write, the error is caught and logged with \<^verbatim>\<open>console.error\<close>, the store is
  left as it was, and nothing reaches the caller. In either case the five fields of the
  in-memory state are unchanged.
\<close>

theorem save_writes_or_logs:
  "\<exists>p'. saveAppState p = Return () p' \<and>
     gap p' = gap p \<and> amplitude p' = amplitude p \<and> speed p' = speed p \<and>
     dotColor p' = dotColor p \<and> notes p' = notes p \<and>
     (if refuses (localStorage p) ''emdr-app-state''
           (Json (JObj (reparse_props
              [(''gap'', gap p), (''amplitude'', amplitude p), (''speed'', speed p),
               (''dotColor'', dotColor p), (''notes'', notes p)])))
      then p' = p\<lparr>console := console p @
                  [(''Error saving app state to localStorage:'', QuotaExceededError)]\<rparr>
      else p' = p\<lparr>localStorage := (localStorage p)\<lparr>items :=
             (items (localStorage p))(''emdr-app-state'' \<mapsto>
                Json (JObj (reparse_props
                  [(''gap'', gap p), (''amplitude'', amplitude p), (''speed'', speed p),
                   (''dotColor'', dotColor p), (''notes'', notes p)])))\<rparr>\<rparr>) \<and>
     (plain (gap p) \<and> plain (amplitude p) \<and> plain (speed p) \<and> plain (dotColor p) \<and>
      plain (notes p) \<longrightarrow>
        reparse_props
          [(''gap'', gap p), (''amplitude'', amplitude p), (''speed'', speed p),
           (''dotColor'', dotColor p), (''notes'', notes p)] =
          [(''gap'', gap p), (''amplitude'', amplitude p), (''speed'', speed p),
           (''dotColor'', dotColor p), (''notes'', notes p)])"
proof -
  have "plain (gap p) \<and> plain (amplitude p) \<and> plain (speed p) \<and> plain (dotColor p) \<and>
      plain (notes p) \<longrightarrow>
        reparse_props
          [(''gap'', gap p), (''amplitude'', amplitude p), (''speed'', speed p),
           (''dotColor'', dotColor p), (''notes'', notes p)] =
          [(''gap'', gap p), (''amplitude'', amplitude p), (''speed'', speed p),
           (''dotColor'', dotColor p), (''notes'', notes p)]"
  proof
    assume "plain (gap p) \<and> plain (amplitude p) \<and> plain (speed p) \<and> plain (dotColor p) \<and>
      plain (notes p)"
    then have "plain_props
          [(''gap'', gap p), (''amplitude'', amplitude p), (''speed'', speed p),
           (''dotColor'', dotColor p), (''notes'', notes p)]"
      by simp
    then show "reparse_props
          [(''gap'', gap p), (''amplitude'', amplitude p), (''speed'', speed p),
           (''dotColor'', dotColor p), (''notes'', notes p)] =
          [(''gap'', gap p), (''amplitude'', amplitude p), (''speed'', speed p),
           (''dotColor'', dotColor p), (''notes'', notes p)]"
      by (rule reparse_plain(3))
  qed
  then show ?thesis
    by (simp add: saveAppState_cases appState_def console_error_def APP_STATE_KEY_def)
qed

text \<open>The theorem at a page with two notes, at a page with an infinite gap and no notes,
  and at a store that refuses every write.\<close>

theorem save_writes_or_logs_witness:
  "saveAppState noted =
     Return ()
       (noted\<lparr>localStorage :=
          store_with ''emdr-app-state''
            (Json (JObj
              [(''gap'', JNum (Fin 40)), (''amplitude'', JNum (Fin 50)),
               (''speed'', JNum (Fin (3/2))), (''dotColor'', JStr ''#00ffaa''),
               (''notes'', JArr
                  [JObj [(''title'', JStr ''Session 2''), (''content'', JStr ''tired''),
                         (''date'', JStr ''2024-05-02''), (''id'', JStr ''1714636400000'')],
                   JObj [(''title'', JStr ''Session 1''), (''content'', JStr ''calm''),
                         (''date'', JStr ''2024-05-01''), (''id'', JStr ''1714550000000'')]])]))\<rparr>) \<and>
   saveAppState (overflowed\<lparr>notes := JUndefined\<rparr>) =
     Return ()
       (overflowed\<lparr>notes := JUndefined, localStorage :=
          store_with ''emdr-app-state''
            (Json (JObj
              [(''gap'', JNull), (''amplitude'', JNum (Fin 50)),
               (''speed'', JNum (Fin 1)), (''dotColor'', JStr ''#00ffaa'')]))\<rparr>) \<and>
   saveAppState (noted\<lparr>localStorage := full_store\<rparr>) =
     Return ()
       (noted\<lparr>localStorage := full_store,
          console := [(''Error saving app state to localStorage:'', QuotaExceededError)]\<rparr>)"
  using save_writes_or_logs [of noted] save_writes_or_logs [of "overflowed\<lparr>notes := JUndefined\<rparr>"]
    save_writes_or_logs [of "noted\<lparr>localStorage := full_store\<rparr>"]
  by (simp add: noted_def overflowed_def fresh_def initial_def full_store_def empty_store_def
      store_with_def note_value_def session1_def session2_def APP_STATE_KEY_def)

text \<open>
  Claim C1, as amended. For every AppState whose \<^verbatim>\<open>gap\<close>, \<^verbatim>\<open>amplitude\<close> and \<^verbatim>\<open>speed\<close> are
  finite numbers, whose \<^verbatim>\<open>dotColor\<close> is a string and whose notes are an array of JSON
  data, as every array of Note objects is (\<open>plain_notes\<close>), a save that the store
  accepts followed by a load, into any page on the same store, returns \<^verbatim>\<open>true\<close> and
  restores the same five values field for field.
\<close>

theorem save_then_load:
  assumes "gap p = JNum (Fin g)" and "amplitude p = JNum (Fin a)" and "speed p = JNum (Fin s)"
    and "dotColor p = JStr c" and "notes p = JArr xs" and "plain_elems xs"
    and "\<not> refuses (localStorage p) APP_STATE_KEY (JSON_stringify (appState p))"
  shows "\<exists>p'. saveAppState p = Return () p' \<and>
           getItem (localStorage p') APP_STATE_KEY = Some (Json (appState p)) \<and>
           loadAppState (q\<lparr>localStorage := localStorage p'\<rparr>) =
             Return True
               (q\<lparr>localStorage := localStorage p', gap := gap p, amplitude := amplitude p,
                  speed := speed p, dotColor := dotColor p, notes := notes p\<rparr>)"
proof -
  let ?s = "(localStorage p)\<lparr>items :=
        (items (localStorage p))(APP_STATE_KEY \<mapsto> Json (reparse (appState p)))\<rparr>"
  have "plain (appState p)"
    using assms(1-6) by (simp add: appState_def)
  then have same: "reparse (appState p) = appState p"
    by (rule reparse_plain(1))
  have saved: "saveAppState p = Return () (p\<lparr>localStorage := ?s\<rparr>)"
    using assms(7) by (simp add: saveAppState_cases stringify_appState)
  have item: "getItem (localStorage (q\<lparr>localStorage := ?s\<rparr>)) APP_STATE_KEY =
      Some (Json (appState p))"
    by (simp add: getItem_def same)
  have "loadAppState (q\<lparr>localStorage := ?s\<rparr>) =
      Return True (loaded (appState p) (q\<lparr>localStorage := ?s\<rparr>))"
    using item by (rule loadAppState_value) (simp_all add: appState_def)
  moreover have "loaded (appState p) (q\<lparr>localStorage := ?s\<rparr>) =
      q\<lparr>localStorage := ?s, gap := gap p, amplitude := amplitude p,
        speed := speed p, dotColor := dotColor p, notes := notes p\<rparr>"
    by (simp add: loaded_def property_def appState_def)
  ultimately show ?thesis using saved item by simp
qed

text \<open>The theorem at a page with two notes and the speed 1.5, loaded into a new page.\<close>

theorem save_then_load_witness:
  "\<exists>p'. saveAppState noted = Return () p' \<and>
     getItem (localStorage p') APP_STATE_KEY = Some (Json (appState noted)) \<and>
     loadAppState (fresh\<lparr>localStorage := localStorage p'\<rparr>) =
       Return True
         (fresh\<lparr>localStorage := localStorage p', speed := JNum (Fin (3/2)),
            notes := JArr [note_value session2, note_value session1]\<rparr>)"
proof -
  have "plain_elems (map note_value [session2, session1])"
    by (rule plain_notes)
  then show ?thesis
    using save_then_load
      [of noted 40 50 "3/2" "''#00ffaa''" "[note_value session2, note_value session1]" fresh]
    by (simp add: noted_def fresh_def initial_def empty_store_def)
qed

text \<open>
  Claim C1 as first stated fails: an AppState whose gap is \<^verbatim>\<open>Infinity\<close> is saved with the
  gap \<^verbatim>\<open>null\<close>, since JSON has no infinity and no NaN, and the load returns \<^verbatim>\<open>null\<close> for
  it.
\<close>

theorem round_trip_counterexample:
  "is_AppState (appState overflowed) \<and>
   saveAppState overflowed =
     Return ()
       (overflowed\<lparr>localStorage :=
          store_with APP_STATE_KEY (Json (appState (overflowed\<lparr>gap := JNull\<rparr>)))\<rparr>) \<and>
   loadAppState
       (initial (store_with APP_STATE_KEY (Json (appState (overflowed\<lparr>gap := JNull\<rparr>))))
          ''2024-05-03'') =
     Return True
       ((initial (store_with APP_STATE_KEY (Json (appState (overflowed\<lparr>gap := JNull\<rparr>))))
           ''2024-05-03'')\<lparr>gap := JNull\<rparr>) \<and>
   gap overflowed = JNum PosInf"
  by (simp add: is_AppState_def has_def overflowed_def fresh_def initial_def empty_store_def
      store_with_def appState_def saveAppState_def setItem_def getItem_def
      loadAppState_def loadAppState_try_def setGap_def setAmplitude_def setSpeed_def
      setDotColor_def setNotes_def)


section \<open>Properties: adding and deleting notes\<close>

lemma dropWhile_all: "(\<forall>x\<in>set (dropWhile P s). P x) \<longleftrightarrow> (\<forall>x\<in>set s. P x)"
  by (induction s) auto

lemma trim_empty: "trim s = [] \<longleftrightarrow> (\<forall>c\<in>set s. white_space c)"
  by (simp add: trim_def dropWhile_eq_Nil_conv dropWhile_all)

lemma get_prop_note_id: "get_prop (note_value n) ''id'' = Inr (JStr (note_id n))"
  by (simp add: note_value_def)

lemma property_note_id: "property (note_value n) ''id'' = JStr (note_id n)"
  by (simp add: property_def get_prop_note_id)

lemma toString_sample: "toString 1714550000000 = ''1714550000000''"
  by (simp add: toString_def digits.simps digit_def)

text \<open>
  Claim C4. When the title of the form is empty or consists of white space only,
  \<^verbatim>\<open>handleAddNote\<close> returns before it reaches \<^verbatim>\<open>setNotes\<close>: whatever the notes are, they
  are unchanged, and so is all of the page but the focus of the title input.
\<close>

theorem blank_title_rejected:
  assumes "\<forall>c\<in>set (title (newNote p)). white_space c"
  shows "\<exists>p'. handleAddNote now today p = Return () p' \<and> notes p' = notes p \<and>
           p' = p\<lparr>titleInput := titleInput p'\<rparr>"
  using assms by (simp add: handleAddNote_def trim_empty split: option.splits)

text \<open>The theorem at a title of a space, a tab and a no-break space.\<close>

theorem blank_title_rejected_witness:
  "trim (title (newNote blank)) = [] \<and>
   handleAddNote 1714550000000 ''2024-05-03'' blank = Return () (blank\<lparr>titleInput := Some True\<rparr>) \<and>
   notes (blank\<lparr>titleInput := Some True\<rparr>) = JArr [note_value session1]"
  using blank_title_rejected [of blank 1714550000000 "''2024-05-03''"]
  by (simp add: blank_def white_space_def handleAddNote_def trim_def)

text \<open>
  Claim C3, as amended. When the title has a character that is not white space and the
  notes are an array, \<^verbatim>\<open>handleAddNote\<close> puts the new note at index 0 of an array one
  longer, with the prior notes after it unchanged. The id of the new note is the decimal
  text of the clock reading \<^verbatim>\<open>Date.now()\<close>; it differs from the ids of all prior notes
  exactly when no prior note has that text as its id.
\<close>

theorem note_added:
  assumes "\<not> (\<forall>c\<in>set (title (newNote p)). white_space c)" and "notes p = JArr prev"
  shows "\<exists>n p'. handleAddNote now today p = Return () p' \<and>
           n = note_value \<lparr>title = title (newNote p), content = content (newNote p),
                 date = date (newNote p), note_id = toString now\<rparr> \<and>
           notes p' = JArr (n # prev) \<and>
           length (n # prev) = length prev + 1 \<and> (n # prev) ! 0 = n \<and> tl (n # prev) = prev \<and>
           (distinct (ids (n # prev)) \<longleftrightarrow>
              JStr (toString now) \<notin> set (ids prev) \<and> distinct (ids prev))"
proof -
  have "trim (title (newNote p)) \<noteq> []"
    using assms(1) by (simp only: trim_empty not_False_eq_True)
  then show ?thesis
    using assms(2) by (simp add: handleAddNote_def ids_def property_note_id Let_def)
qed

text \<open>The theorem at a page with one note, a day after that note was made.\<close>

theorem note_added_witness:
  "\<exists>n p'. handleAddNote 1714636400000 ''2024-05-03'' filling = Return () p' \<and>
     n = note_value \<lparr>title = ''Session 1 again'', content = ''same hour'', date = ''2024-05-01'',
           note_id = toString 1714636400000\<rparr> \<and>
     notes p' = JArr [n, note_value session1] \<and>
     distinct (ids [n, note_value session1])"
  using note_added [of filling "[note_value session1]" 1714636400000 "''2024-05-03''"]
  by (simp add: filling_def white_space_def ids_def property_note_id session1_def
      toString_def digits.simps digit_def)

text \<open>
  Claim C3 as first stated fails: the id is not unique among all notes when the clock
  reads what it read for a prior note (a clock that was set back, a record written by
  another tab in the same millisecond). Both notes then have the id \<^verbatim>\<open>1714550000000\<close>.
\<close>

theorem fresh_id_counterexample:
  "handleAddNote 1714550000000 ''2024-05-03'' filling =
     Return ()
       (filling\<lparr>notes :=
            JArr [note_value \<lparr>title = ''Session 1 again'', content = ''same hour'',
                     date = ''2024-05-01'', note_id = ''1714550000000''\<rparr>,
                  note_value session1],
          newNote := \<lparr>title = [], content = [], date = ''2024-05-03''\<rparr>,
          showNoteForm := False, titleInput := None\<rparr>) \<and>
   get_prop (note_value \<lparr>title = ''Session 1 again'', content = ''same hour'',
                     date = ''2024-05-01'', note_id = ''1714550000000''\<rparr>) ''id'' =
     get_prop (note_value session1) ''id'' \<and>
   \<not> distinct (ids [note_value \<lparr>title = ''Session 1 again'', content = ''same hour'',
                     date = ''2024-05-01'', note_id = ''1714550000000''\<rparr>,
                  note_value session1])"
  by (simp add: handleAddNote_def filling_def trim_def white_space_def toString_sample
      get_prop_note_id ids_def property_note_id session1_def)

lemma filter_notes_typed:
  "filter_notes i (map note_value ns) = Inr (map note_value (filter (\<lambda>n. note_id n \<noteq> i) ns))"
  by (induction ns) (simp_all add: get_prop_note_id)

lemma length_filter_distinct:
  "distinct (map note_id ns) \<Longrightarrow> i \<in> note_id ` set ns \<Longrightarrow>
   length (filter (\<lambda>n. note_id n \<noteq> i) ns) + 1 = length ns"
proof (induction ns)
  case Nil
  then show ?case by simp
next
  case (Cons n ns)
  show ?case
  proof (cases "note_id n = i")
    case True
    then have "i \<notin> note_id ` set ns" using Cons.prems(1) by auto
    then have "filter (\<lambda>n. note_id n \<noteq> i) ns = ns" by (auto simp: filter_id_conv)
    then show ?thesis using True by simp
  next
    case False
    then show ?thesis using Cons by auto
  qed
qed

text \<open>
  Claim C5. On every sequence of notes \<^verbatim>\<open>handleDeleteNote\<close> keeps exactly the notes whose id
  differs from the given one, in their original order: no kept note has the id, every
  note with another id is kept, nothing is changed when no note has the id, and when
  the ids are distinct and one note has the id, exactly that one note is removed.
\<close>

theorem note_deleted:
  assumes "notes p = JArr (map note_value ns)"
  shows "\<exists>kept. handleDeleteNote i p = Return () (p\<lparr>notes := JArr (map note_value kept)\<rparr>) \<and>
           kept = filter (\<lambda>n. note_id n \<noteq> i) ns \<and>
           subseq kept ns \<and>
           (\<forall>n\<in>set kept. note_id n \<noteq> i) \<and>
           (\<forall>n\<in>set ns. note_id n \<noteq> i \<longrightarrow> n \<in> set kept) \<and>
           (i \<notin> note_id ` set ns \<longrightarrow> kept = ns) \<and>
           (distinct (map note_id ns) \<and> i \<in> note_id ` set ns \<longrightarrow> length kept + 1 = length ns)"
proof -
  let ?kept = "filter (\<lambda>n. note_id n \<noteq> i) ns"
  have "handleDeleteNote i p = Return () (p\<lparr>notes := JArr (map note_value ?kept)\<rparr>)"
    by (simp add: handleDeleteNote_def assms filter_notes_typed)
  moreover have "subseq ?kept ns" by simp
  moreover have "i \<notin> note_id ` set ns \<longrightarrow> ?kept = ns" by (auto simp: filter_id_conv)
  moreover have "distinct (map note_id ns) \<and> i \<in> note_id ` set ns \<longrightarrow> length ?kept + 1 = length ns"
    using length_filter_distinct by blast
  ultimately show ?thesis by auto
qed

text \<open>The theorem at a page with two notes: deleting the second, the first, and an id
  that no note has.\<close>

theorem note_deleted_witness:
  "handleDeleteNote ''1714550000000'' noted = Return () (noted\<lparr>notes := JArr [note_value session2]\<rparr>) \<and>
   handleDeleteNote ''1714636400000'' noted = Return () (noted\<lparr>notes := JArr [note_value session1]\<rparr>) \<and>
   handleDeleteNote ''42'' noted = Return () noted"
  using note_deleted [of noted "[session2, session1]" "''1714550000000''"]
    note_deleted [of noted "[session2, session1]" "''1714636400000''"]
    note_deleted [of noted "[session2, session1]" "''42''"]
  by (simp add: noted_def session1_def session2_def)

section \<open>Properties: steppers\<close>

lemma Math_max_NaN [simp]: "Math_max a NaN = NaN"
  by (cases a) simp_all

lemma Math_min_NaN [simp]: "Math_min a NaN = NaN"
  by (cases a) simp_all

lemma js_add_NaN [simp]: "js_add a NaN = NaN"
  by (cases a) simp_all


lemma clamp_cases:
  "lo \<le> hi \<Longrightarrow>
   Math_min (Fin hi) (Math_max (Fin lo) n) = NaN \<or>
   in_range lo hi (JNum (Math_min (Fin hi) (Math_max (Fin lo) n)))"
  by (cases n) auto






text \<open>On the other values that a load can leave in the state: whatever the value, a
  stepper that returns has stored NaN or a number in the range. A text that is no
  number gives NaN, a text of digits is concatenated with the increment first, the
  empty array and \<^verbatim>\<open>null\<close> count as 0, and an object with a \<^verbatim>\<open>toString\<close> property
  makes the stepper throw.\<close>

lemma stepper_range_or_NaN:
  assumes "lo \<le> hi"
  shows "incrementValue f setter v d (Fin lo) (Fin hi) p = Return () p' \<Longrightarrow>
         \<exists>n. p' = setter (JNum n) p \<and> (n = NaN \<or> in_range lo hi (JNum n))"
  using clamp_cases [OF assms]
  by (auto simp: incrementValue_def split: sum.splits)

lemma trim_Cons: "\<not> white_space c \<Longrightarrow> \<exists>r. trim (c # s) = c # r"
proof -
  assume c: "\<not> white_space c"
  have "\<exists>ys. dropWhile white_space (rev s @ [c]) = ys @ [c]"
    using c by (simp add: dropWhile_append)
  then obtain ys where "dropWhile white_space (rev s @ [c]) = ys @ [c]" ..
  then have "trim (c # s) = c # rev ys"
    using c by (simp add: trim_def)
  then show ?thesis ..
qed

lemma StringToNumber_w: "StringToNumber (CHR ''w'' # s) = NaN"
proof -
  have "\<not> white_space CHR ''w''" by (simp add: white_space_def)
  then obtain r where r: "trim (CHR ''w'' # s) = CHR ''w'' # r"
    using trim_Cons by blast
  have "non_decimal (CHR ''w'' # r) = None" by (cases r) simp_all
  moreover have "unsigned_decimal (CHR ''w'' # r) = NaN"
    by (simp add: unsigned_decimal_def decimal_digit_def)
  ultimately show ?thesis by (simp add: StringToNumber_def r)
qed

lemma stepper_on_text:
  "incrementValue f setAmplitude (JStr ''wide'') (Fin 5) (Fin 10) (Fin 50) p =
     Return () (p\<lparr>amplitude := JNum NaN\<rparr>)"
  by (simp add: incrementValue_def js_plus_def ToNumber_def StringToNumber_w setAmplitude_def)

lemma stepper_on_digits:
  "gap_plus integer_text (fresh\<lparr>gap := JStr ''7''\<rparr>) = Return () (fresh\<lparr>gap := JNum (Fin 75)\<rparr>)"
  by (simp add: gap_plus_def incrementValue_def js_plus_def ToNumber_def integer_text_def
      toString_def digits.simps digit_def StringToNumber_def trim_def white_space_def
      unsigned_decimal_def decimal_digit_def digits_value_def digit_value_def power_of_ten_def
      number_of_def setGap_def fresh_def initial_def)

lemma stepper_on_array:
  "amplitude_plus integer_text (fresh\<lparr>amplitude := JArr []\<rparr>) =
     Return () (fresh\<lparr>amplitude := JNum (Fin 10)\<rparr>) \<and>
   amplitude_plus integer_text (fresh\<lparr>amplitude := JObj [(''toString'', JNull)]\<rparr>) =
     Throw TypeError (fresh\<lparr>amplitude := JObj [(''toString'', JNull)]\<rparr>) \<and>
   amplitude_plus integer_text (fresh\<lparr>amplitude := JObj []\<rparr>) =
     Return () (fresh\<lparr>amplitude := JNum NaN\<rparr>) \<and>
   amplitude_plus integer_text (fresh\<lparr>amplitude := JNull\<rparr>) =
     Return () (fresh\<lparr>amplitude := JNum (Fin 10)\<rparr>)"
  by (simp add: amplitude_plus_def incrementValue_def js_plus_def ToNumber_def integer_text_def
      toString_def digits.simps digit_def StringToNumber_def trim_def white_space_def
      unsigned_decimal_def decimal_digit_def digits_value_def digit_value_def power_of_ten_def
      number_of_def setAmplitude_def fresh_def initial_def)

section \<open>Properties: the debounced save\<close>

lemma callback_fields [simp]:
  "timers (callback cl m) = timers m"
  "clock (callback cl m) = clock m"
  "next_id (callback cl m) = next_id m"
  "saveTimeout (callback cl m) = saveTimeout m"
  "saves (callback cl m) = saves m + 1"
  by (simp_all add: callback_def split: outcome.splits)

lemma callback_own_closure:
  "saveAppState (view m) = Return () (view (callback (view m) m))"
  by (simp add: callback_def saveAppState_cases console_error_def)

lemma fold_callback_fields [simp]:
  "timers (fold (\<lambda>x. callback (closure x)) xs m) = timers m"
  "clock (fold (\<lambda>x. callback (closure x)) xs m) = clock m"
  "next_id (fold (\<lambda>x. callback (closure x)) xs m) = next_id m"
  "saveTimeout (fold (\<lambda>x. callback (closure x)) xs m) = saveTimeout m"
  "saves (fold (\<lambda>x. callback (closure x)) xs m) = saves m + length xs"
  by (induction xs arbitrary: m) simp_all

lemma elapse_fields [simp]:
  "timers (elapse t m) = filter (\<lambda>x. \<not> deadline x \<le> t) (timers m)"
  "clock (elapse t m) = t"
  "next_id (elapse t m) = next_id m"
  "saveTimeout (elapse t m) = saveTimeout m"
  "saves (elapse t m) = saves m + length (filter (\<lambda>x. deadline x \<le> t) (timers m))"
  by (simp_all add: elapse_def)

lemma own_elapse: "own m \<Longrightarrow> own (elapse t m)"
  by (simp add: own_def list_all_iff)

lemma cleanup_own: "own m \<Longrightarrow> timers (cleanup m) = []"
  by (cases "saveTimeout m")
     (auto simp: own_def cleanup_def clearTimeout_def list_all_iff filter_empty_conv
           dest!: hd_in_set intro: list.exhaust)

lemma cleanup_fields [simp]:
  "view (cleanup m) = view m" "clock (cleanup m) = clock m" "next_id (cleanup m) = next_id m"
  "saves (cleanup m) = saves m"
  by (simp_all add: cleanup_def clearTimeout_def split: option.splits)

lemma render_own:
  assumes "own m"
  shows "armed (clock m + 500) (render u m)"
    and "saves (render u m) = saves m"
    and "clock (render u m) = clock m"
    and "view (render u m) = apply_event u (view m)"
proof -
  have "own (m\<lparr>view := apply_event u (view m)\<rparr>)"
    using assms by (simp add: own_def)
  then have t: "timers (cleanup (m\<lparr>view := apply_event u (view m)\<rparr>)) = []"
    by (rule cleanup_own)
  show "armed (clock m + 500) (render u m)"
    by (simp add: armed_def render_def effect_def setTimeout_def t)
  show "saves (render u m) = saves m"
    by (simp add: render_def effect_def setTimeout_def)
  show "clock (render u m) = clock m"
    by (simp add: render_def effect_def setTimeout_def)
  show "view (render u m) = apply_event u (view m)"
    by (simp add: render_def effect_def setTimeout_def)
qed

lemma armed_own: "armed d m \<Longrightarrow> own m"
  by (auto simp: armed_def own_def split: option.splits)

lemma elapse_view_early:
  assumes "list_all (\<lambda>x. t < deadline x) (timers m)"
  shows "view (elapse t m) = view m"
proof -
  have "filter (\<lambda>x. deadline x \<le> t) (timers m) = []"
    using assms by (auto simp: list_all_iff filter_empty_conv)
  then show ?thesis by (simp add: elapse_def)
qed

lemma armed_elapse_early:
  assumes "armed d m" and "t < d"
  shows "armed d (elapse t m)" and "saves (elapse t m) = saves m"
    and "view (elapse t m) = view m"
proof -
  from assms(1) obtain i where i: "saveTimeout m = Some i"
    and ts: "timers m = [\<lparr>timer_id = i, deadline = d, closure = view m\<rparr>]"
    by (auto simp: armed_def split: option.splits)
  show v: "view (elapse t m) = view m"
    using assms(2) by (simp add: elapse_view_early ts)
  show "armed d (elapse t m)"
    using assms(2) by (simp add: armed_def i ts v)
  show "saves (elapse t m) = saves m"
    using assms(2) by (simp add: ts)
qed

lemma armed_elapse_due:
  assumes "armed d m" and "d \<le> t"
  shows "saves (elapse t m) = saves m + 1"
    and "saveAppState (view m) = Return () (view (elapse t m))"
proof -
  from assms(1) obtain i where i: "saveTimeout m = Some i"
    and ts: "timers m = [\<lparr>timer_id = i, deadline = d, closure = view m\<rparr>]"
    by (auto simp: armed_def split: option.splits)
  show "saves (elapse t m) = saves m + 1" using assms(2) by (simp add: ts)
  have "view (elapse t m) = view (callback (view m) (m\<lparr>timers := [], clock := t\<rparr>))"
    using assms(2) by (simp add: elapse_def ts)
  also have "Return () \<dots> = saveAppState (view m)"
    using callback_own_closure [of "m\<lparr>timers := [], clock := t\<rparr>"] by simp
  finally show "saveAppState (view m) = Return () (view (elapse t m))" by simp
qed

lemma run_quick:
  "armed (t + 500) m \<Longrightarrow> clock m = t \<Longrightarrow> quick t es \<Longrightarrow> mutations es (view m) \<Longrightarrow>
   armed (last_time t es + 500) (run es m) \<and> saves (run es m) = saves m \<and>
   view (run es m) = apply_events es (view m)"
proof (induction es arbitrary: t m)
  case Nil
  then show ?case by simp
next
  case (Cons e es)
  obtain t' u where e: "e = (t', u)" by (cases e)
  from Cons.prems(3) have lt: "t' < t + 500" and q: "quick t' es"
    by (simp_all add: e)
  let ?m1 = "elapse t' m"
  let ?m2 = "render u ?m1"
  have a1: "armed (t + 500) ?m1" and s1: "saves ?m1 = saves m" and v1: "view ?m1 = view m"
    using armed_elapse_early [OF Cons.prems(1) lt] by simp_all
  from Cons.prems(4) have r: "rerenders u (view ?m1)"
    and ms: "mutations es (apply_event u (view m))"
    by (simp_all add: e v1)
  have d: "dispatch u ?m1 = ?m2" using r by (simp add: dispatch_def)
  have o1: "own ?m1" using a1 by (rule armed_own)
  have a2: "armed (t' + 500) ?m2" using render_own(1) [OF o1, of u] by simp
  have s2: "saves ?m2 = saves m" using render_own(2) [OF o1, of u] s1 by simp
  have c2: "clock ?m2 = t'" using render_own(3) [OF o1, of u] by simp
  have v2: "view ?m2 = apply_event u (view m)" using render_own(4) [OF o1, of u] v1 by simp
  from Cons.IH [OF a2 c2 q] ms s2 v2 show ?case by (simp add: e d)
qed

text \<open>Setter calls in time order that all fall within 500 ms of the first are such a
  sequence.\<close>

lemma window_quick:
  "sorted (map fst es) \<Longrightarrow> list_all (\<lambda>e. t \<le> fst e \<and> fst e < t + 500) es \<Longrightarrow> quick t es"
proof (induction es arbitrary: t)
  case Nil
  then show ?case by simp
next
  case (Cons e es)
  obtain t' u where e: "e = (t', u)" by (cases e)
  have "list_all (\<lambda>x. t' \<le> fst x \<and> fst x < t' + 500) es"
    using Cons.prems by (auto simp: e list_all_iff)
  moreover have "sorted (map fst es)" using Cons.prems(1) by simp
  ultimately have "quick t' es" by (rule Cons.IH [rotated])
  then show ?case using Cons.prems(2) by (simp add: e)
qed

lemma burst_run:
  assumes "own m" and "quick t es" and "mutations ((t, u) # es) (view (elapse t m))"
  shows "armed (last_time t es + 500) (run ((t, u) # es) m)"
    and "saves (run ((t, u) # es) m) = saves (elapse t m)"
    and "view (run ((t, u) # es) m) = apply_events ((t, u) # es) (view (elapse t m))"
proof -
  let ?m1 = "elapse t m"
  let ?m2 = "render u ?m1"
  have o1: "own ?m1" using assms(1) by (rule own_elapse)
  from assms(3) have r: "rerenders u (view ?m1)"
    and ms: "mutations es (apply_event u (view ?m1))"
    by simp_all
  have d: "dispatch u ?m1 = ?m2" using r by (simp add: dispatch_def)
  have a2: "armed (t + 500) ?m2" using render_own(1) [OF o1, of u] by simp
  have s2: "saves ?m2 = saves ?m1" using render_own(2) [OF o1, of u] by simp
  have c2: "clock ?m2 = t" using render_own(3) [OF o1, of u] by simp
  have v2: "view ?m2 = apply_event u (view ?m1)" using render_own(4) [OF o1, of u] by simp
  from run_quick [OF a2 c2 assms(2)] ms v2 s2
  show "armed (last_time t es + 500) (run ((t, u) # es) m)"
    and "saves (run ((t, u) # es) m) = saves (elapse t m)"
    and "view (run ((t, u) # es) m) = apply_events ((t, u) # es) (view (elapse t m))"
    by (simp_all add: d)
qed

lemma debounce_aux:
  assumes "own m" and "quick t es" and "mutations ((t, u) # es) (view (elapse t m))"
    and "p = apply_events ((t, u) # es) (view (elapse t m))"
  shows "saves (elapse T (run ((t, u) # es) m)) =
           (if last_time t es + 500 \<le> T then saves (elapse t m) + 1 else saves (elapse t m)) \<and>
         view (elapse T (run ((t, u) # es) m)) =
           (if T < last_time t es + 500 then p
            else if refuses (localStorage p) ''emdr-app-state''
                 (Json (JObj (reparse_props
                    [(''gap'', gap p), (''amplitude'', amplitude p), (''speed'', speed p),
                     (''dotColor'', dotColor p), (''notes'', notes p)])))
            then p\<lparr>console := console p @
                   [(''Error saving app state to localStorage:'', QuotaExceededError)]\<rparr>
            else p\<lparr>localStorage := (localStorage p)\<lparr>items :=
                   (items (localStorage p))(''emdr-app-state'' \<mapsto>
                      Json (JObj (reparse_props
                        [(''gap'', gap p), (''amplitude'', amplitude p), (''speed'', speed p),
                         (''dotColor'', dotColor p), (''notes'', notes p)])))\<rparr>\<rparr>) \<and>
         localStorage p = localStorage (view (elapse t m)) \<and>
         console p = console (view (elapse t m))"
proof -
  let ?r = "run ((t, u) # es) m"
  note b = burst_run [OF assms(1-3)]
  have v: "view ?r = p" using b(3) assms(4) by simp
  have un: "\<And>es q. localStorage (apply_events es q) = localStorage q \<and>
      console (apply_events es q) = console q"
  proof -
    fix es :: "(nat \<times> event) list" and q
    show "localStorage (apply_events es q) = localStorage q \<and>
      console (apply_events es q) = console q"
    proof (induction es arbitrary: q)
      case Nil
      then show ?case by simp
    next
      case (Cons e es)
      obtain t' u' where e: "e = (t', u')" by (cases e)
      have "localStorage (apply_event u' q) = localStorage q \<and>
          console (apply_event u' q) = console q"
        by (cases u') (simp_all add: setGap_def setAmplitude_def setSpeed_def setDotColor_def
            setNotes_def)
      with Cons.IH [of "apply_event u' q"] show ?case by (simp add: e)
    qed
  qed
  have st: "localStorage p = localStorage (view (elapse t m)) \<and>
         console p = console (view (elapse t m))"
    using un [of "(t, u) # es" "view (elapse t m)"] assms(4) by simp
  show ?thesis
  proof (cases "last_time t es + 500 \<le> T")
    case True
    have "Return () (view (elapse T ?r)) = saveAppState p"
      using armed_elapse_due(2) [OF b(1) True] v by simp
    then have "view (elapse T ?r) =
        (if refuses (localStorage p) APP_STATE_KEY (Json (reparse (appState p)))
         then console_error ''Error saving app state to localStorage:'' QuotaExceededError p
         else p\<lparr>localStorage := (localStorage p)\<lparr>items :=
               (items (localStorage p))(APP_STATE_KEY \<mapsto> Json (reparse (appState p)))\<rparr>\<rparr>)"
      by (simp add: saveAppState_cases)
    then show ?thesis
      using armed_elapse_due(1) [OF b(1) True] b(2) True st
      by (simp add: appState_def console_error_def APP_STATE_KEY_def)
  next
    case False
    then have lt: "T < last_time t es + 500" by simp
    from armed_elapse_early(2,3) [OF b(1) lt] b(2) v lt st show ?thesis by simp
  qed
qed

lemma mount_own: "own (mount t p)"
  by (simp add: own_def mount_def effect_def setTimeout_def)

lemma mount_elapse_early:
  "t' < t + 500 \<Longrightarrow> view (elapse t' (mount t p)) = p \<and> saves (elapse t' (mount t p)) = 0"
  by (simp add: elapse_def mount_def effect_def setTimeout_def)

lemma burst_facts: "quick 100 burst" "last_time 100 burst = 700"
  by (simp_all add: burst_def)

lemma burst_on:
  assumes "gap q = JNum (Fin 40)" and "speed q = JNum (Fin 1)"
  shows "mutations ((100, SetGap (JNum (Fin 45))) # burst) q"
    and "apply_events ((100, SetGap (JNum (Fin 45))) # burst) q =
           q\<lparr>gap := JNum (Fin 50), speed := JNum (Fin 2)\<rparr>"
  using assms by (simp_all add: burst_def setGap_def setSpeed_def)

text \<open>
  Claim C9, as amended. Take a mutation at time \<open>t\<close> followed by any number of
  mutations, each less than 500 ms after the one before (mutations within one window
  of 500 ms are a case of this); a mutation is a setter call that changes the value of
  its cell. Every mutation clears the pending timeout and sets a new one, so while
  the page stays mounted and no other render follows, \<^verbatim>\<open>saveAppState\<close> is called exactly
  once from the first mutation on: the page and the store are untouched until 500 ms
  have passed since the last mutation, and from then on the page is the one that the
  mutations left, with the record of its five fields written under the primary key
  when the store accepts the write, and with the error logged and the store unchanged
  when the store refuses it.
\<close>

theorem debounce_one_write:
  assumes "own m" and "quick t es" and "mutations ((t, u) # es) (view (elapse t m))"
    and "clock m \<le> t" and "last_time t es \<le> T"
  shows "let p = apply_events ((t, u) # es) (view (elapse t m)) in
         saves (elapse T (run ((t, u) # es) m)) =
           (if last_time t es + 500 \<le> T then saves (elapse t m) + 1 else saves (elapse t m)) \<and>
         view (elapse T (run ((t, u) # es) m)) =
           (if T < last_time t es + 500 then p
            else if refuses (localStorage p) ''emdr-app-state''
                 (Json (JObj (reparse_props
                    [(''gap'', gap p), (''amplitude'', amplitude p), (''speed'', speed p),
                     (''dotColor'', dotColor p), (''notes'', notes p)])))
            then p\<lparr>console := console p @
                   [(''Error saving app state to localStorage:'', QuotaExceededError)]\<rparr>
            else p\<lparr>localStorage := (localStorage p)\<lparr>items :=
                   (items (localStorage p))(''emdr-app-state'' \<mapsto>
                      Json (JObj (reparse_props
                        [(''gap'', gap p), (''amplitude'', amplitude p), (''speed'', speed p),
                         (''dotColor'', dotColor p), (''notes'', notes p)])))\<rparr>\<rparr>) \<and>
         localStorage p = localStorage (view (elapse t m)) \<and>
         console p = console (view (elapse t m))"
  using debounce_aux [OF assms(1-3) refl] by (simp only: Let_def)

text \<open>The theorem at three mutations at 100, 300 and 700 ms after the first render:
  no write up to 1199 ms, and at 1200 ms the record of the last state in the store.\<close>

theorem debounce_one_write_witness:
  "own (mount 0 fresh) \<and> quick 100 burst \<and>
   mutations ((100, SetGap (JNum (Fin 45))) # burst) (view (elapse 100 (mount 0 fresh))) \<and>
   saves (elapse 1199 (run ((100, SetGap (JNum (Fin 45))) # burst) (mount 0 fresh))) = 0 \<and>
   view (elapse 1199 (run ((100, SetGap (JNum (Fin 45))) # burst) (mount 0 fresh))) =
     fresh\<lparr>gap := JNum (Fin 50), speed := JNum (Fin 2)\<rparr> \<and>
   saves (elapse 1200 (run ((100, SetGap (JNum (Fin 45))) # burst) (mount 0 fresh))) = 1 \<and>
   view (elapse 1200 (run ((100, SetGap (JNum (Fin 45))) # burst) (mount 0 fresh))) =
     fresh\<lparr>gap := JNum (Fin 50), speed := JNum (Fin 2),
       localStorage := store_with ''emdr-app-state''
         (Json (JObj [(''gap'', JNum (Fin 50)), (''amplitude'', JNum (Fin 50)),
                      (''speed'', JNum (Fin 2)), (''dotColor'', JStr ''#00ffaa''),
                      (''notes'', JArr [])]))\<rparr>"
proof -
  let ?r = "run ((100, SetGap (JNum (Fin 45))) # burst) (mount 0 fresh)"
  have o: "own (mount 0 fresh)" by (rule mount_own)
  have q: "quick 100 burst" by (rule burst_facts(1))
  have c: "clock (mount 0 fresh) \<le> 100"
    by (simp add: mount_def effect_def setTimeout_def)
  have v0: "view (elapse 100 (mount 0 fresh)) = fresh" and s0: "saves (elapse 100 (mount 0 fresh)) = 0"
    using mount_elapse_early [of 100 0 fresh] by simp_all
  have ms: "mutations ((100, SetGap (JNum (Fin 45))) # burst) (view (elapse 100 (mount 0 fresh)))"
    unfolding v0 by (rule burst_on(1)) (simp_all add: fresh_def initial_def)
  have ap: "apply_events ((100, SetGap (JNum (Fin 45))) # burst) (view (elapse 100 (mount 0 fresh))) =
      fresh\<lparr>gap := JNum (Fin 50), speed := JNum (Fin 2)\<rparr>"
    unfolding v0 by (rule burst_on(2)) (simp_all add: fresh_def initial_def)
  have a: "saves (elapse 1199 ?r) = 0 \<and>
      view (elapse 1199 ?r) = fresh\<lparr>gap := JNum (Fin 50), speed := JNum (Fin 2)\<rparr>"
    using debounce_one_write [OF o q ms c, of 1199]
    by (simp only: Let_def ap s0 burst_facts(2)) simp
  have b: "saves (elapse 1200 ?r) = 1 \<and>
      view (elapse 1200 ?r) =
        fresh\<lparr>gap := JNum (Fin 50), speed := JNum (Fin 2),
          localStorage := store_with ''emdr-app-state''
            (Json (JObj [(''gap'', JNum (Fin 50)), (''amplitude'', JNum (Fin 50)),
                      (''speed'', JNum (Fin 2)), (''dotColor'', JStr ''#00ffaa''),
                      (''notes'', JArr [])]))\<rparr>"
    using debounce_one_write [OF o q ms c, of 1200]
    by (simp only: Let_def ap s0 burst_facts(2))
       (simp add: fresh_def initial_def empty_store_def store_with_def)
  from o q ms a b show ?thesis by blast
qed

text \<open>
  Claim C9 as first stated fails on a store that refuses the write: the three
  mutations lead to one call of \<^verbatim>\<open>saveAppState\<close>, whose \<^verbatim>\<open>setItem\<close> throws, and nothing is
  persisted.
\<close>

theorem refused_write_counterexample:
  "saves (elapse 1200 (run ((100, SetGap (JNum (Fin 45))) # burst) (mount 0 refused))) = 1 \<and>
   view (elapse 1200 (run ((100, SetGap (JNum (Fin 45))) # burst) (mount 0 refused))) =
     refused\<lparr>gap := JNum (Fin 50), speed := JNum (Fin 2),
       console := [(''Error saving app state to localStorage:'', QuotaExceededError)]\<rparr> \<and>
   getItem
     (localStorage
       (view (elapse 1200 (run ((100, SetGap (JNum (Fin 45))) # burst) (mount 0 refused)))))
     ''emdr-app-state'' = None"
proof -
  let ?r = "run ((100, SetGap (JNum (Fin 45))) # burst) (mount 0 refused)"
  have o: "own (mount 0 refused)" by (rule mount_own)
  have q: "quick 100 burst" by (rule burst_facts(1))
  have v0: "view (elapse 100 (mount 0 refused)) = refused"
    and s0: "saves (elapse 100 (mount 0 refused)) = 0"
    using mount_elapse_early [of 100 0 refused] by simp_all
  have ms: "mutations ((100, SetGap (JNum (Fin 45))) # burst) (view (elapse 100 (mount 0 refused)))"
    unfolding v0 by (rule burst_on(1)) (simp_all add: refused_def fresh_def initial_def)
  have ap: "apply_events ((100, SetGap (JNum (Fin 45))) # burst) (view (elapse 100 (mount 0 refused))) =
      refused\<lparr>gap := JNum (Fin 50), speed := JNum (Fin 2)\<rparr>"
    unfolding v0 by (rule burst_on(2)) (simp_all add: refused_def fresh_def initial_def)
  have "saves (elapse 1200 ?r) = 1 \<and>
      view (elapse 1200 ?r) =
        refused\<lparr>gap := JNum (Fin 50), speed := JNum (Fin 2),
          console := [(''Error saving app state to localStorage:'', QuotaExceededError)]\<rparr>"
    using debounce_aux [OF o q ms ap [symmetric], of 1200]
    by (simp only: s0 burst_facts(2))
       (simp add: refused_def fresh_def initial_def full_store_def)
  then show ?thesis
    by (simp add: refused_def fresh_def initial_def full_store_def getItem_def)
qed

text \<open>A page that goes away before the timeout is due never saves: closed 200 ms after
  the last of the three mutations, it has made no call by any later time.\<close>

lemma unmount_cancels:
  assumes "armed d m"
  shows "saves (elapse T (unmount m)) = saves m"
proof -
  have "timers (unmount m) = []"
    unfolding unmount_def using assms by (intro cleanup_own armed_own)
  then show ?thesis by (simp add: unmount_def)
qed

lemma unmount_after_burst:
  "saves (elapse T (unmount (elapse 900
      (run ((100, SetGap (JNum (Fin 45))) # burst) (mount 0 fresh))))) = 0"
proof -
  let ?r = "run ((100, SetGap (JNum (Fin 45))) # burst) (mount 0 fresh)"
  have v0: "view (elapse 100 (mount 0 fresh)) = fresh" and s0: "saves (elapse 100 (mount 0 fresh)) = 0"
    using mount_elapse_early [of 100 0 fresh] by simp_all
  have ms: "mutations ((100, SetGap (JNum (Fin 45))) # burst) (view (elapse 100 (mount 0 fresh)))"
    unfolding v0 by (rule burst_on(1)) (simp_all add: fresh_def initial_def)
  note b = burst_run [OF mount_own burst_facts(1) ms]
  have a: "armed (700 + 500) ?r" using b(1) by (simp only: burst_facts(2))
  have "armed (700 + 500) (elapse 900 ?r)" and "saves (elapse 900 ?r) = saves ?r"
    using armed_elapse_early(1,2) [OF a, of 900] by simp_all
  then show ?thesis using unmount_cancels b(2) s0 by simp
qed

text \<open>A setter call with the current value is no mutation: clicking the amplitude up
  at its maximum 400 ms after the first render leaves the timeout of that render in
  place, which saves at 500 ms; a call that changes the amplitude moves the save to
  900 ms.\<close>

lemma unchanged_value_keeps_timeout:
  "saves (elapse 500 (run [(400, SetAmplitude (JNum (Fin 50)))] (mount 0 fresh))) = 1 \<and>
   saves (elapse 500 (run [(400, SetAmplitude (JNum (Fin 45)))] (mount 0 fresh))) = 0 \<and>
   saves (elapse 900 (run [(400, SetAmplitude (JNum (Fin 45)))] (mount 0 fresh))) = 1"
  by (simp add: dispatch_def render_def cleanup_def clearTimeout_def effect_def setTimeout_def
      mount_def elapse_def fresh_def initial_def setAmplitude_def)

end
